theory Spec2Isabelle
  imports
    Main
    "HOL-Library.Word"
    "HOL-Library.RBT"
    "HOL-Library.Char_ord"
    "HOL-Library.List_Lexorder"
begin

section \<open>Data model\<close>

text \<open>
  The development covers \<^verbatim>\<open>Databases/PostgreSQL/DatabasePostgreSQLReplica.cpp\<close>
  (the mirrored-catalog database engine) and the constructor of
  \<^verbatim>\<open>Interpreters/IInterpreterUnionOrSelectQuery.h\<close>.

  Exceptions and crashes are values of type \<open>fault\<close>. A null \<^verbatim>\<open>StoragePtr\<close> or
  \<^verbatim>\<open>unique_ptr\<close> is \<open>None\<close>. Calling a member through the null result of a failed
  \<^verbatim>\<open>as<T>()\<close> cast is the fault \<open>NullPointerDereference\<close>; calling one through a pointer
  member that no constructor initialised is the fault \<open>UninitializedPointerDereference\<close>.
\<close>

datatype fault = Exception string | NullPointerDereference | UninitializedPointerDereference

type_synonym ast = string

type_synonym storage_id = "string \<times> string"

text \<open>
  A column of a \<^verbatim>\<open>Block\<close>: \<^verbatim>\<open>DataTypeUInt32().createColumnConst(size, value)\<close> is
  \<open>ColumnConst DataTypeUInt32 size value\<close>.
\<close>

datatype data_type = DataTypeUInt32

datatype column = ColumnConst data_type nat "32 word"

record column_with_type_and_name =
  column :: column
  type :: data_type
  name :: string

type_synonym block = "column_with_type_and_name list"

text \<open>
  \<^verbatim>\<open>Context\<close>: the part the two files read and write. \<open>query_context\<close> is the pointer
  behind \<^verbatim>\<open>hasQueryContext()\<close> / \<^verbatim>\<open>getQueryContext()\<close>;
  \<open>query_factories_storages\<close> is \<^verbatim>\<open>getQueryFactoriesInfo().storages\<close>; the two
  settings are \<^verbatim>\<open>getSettingsRef().max_insert_block_size\<close> and \<^verbatim>\<open>.max_threads\<close>.
\<close>

datatype "context" = Context
  (query_context: "context option")
  (query_factories_storages: "string set")
  (max_insert_block_size: "64 word")
  (max_threads: "64 word")
  (special_scalars: "string \<Rightarrow> block option")

definition hasQueryContext :: "context \<Rightarrow> bool" where
  "hasQueryContext c = (query_context c \<noteq> None)"

text \<open>\<^verbatim>\<open>getQueryContext()\<close>; both files call it only where \<open>hasQueryContext\<close> holds.\<close>

definition getQueryContext :: "context \<Rightarrow> context" where
  "getQueryContext c = the (query_context c)"

text \<open>
  A storage object behind a \<^verbatim>\<open>StoragePtr\<close>: either a \<^verbatim>\<open>StoragePostgreSQLReplica\<close>
  (the table handle, holding its possibly null nested storage) or a storage of any other
  engine, given by the engine's name and its id.
\<close>

datatype storage =
    StoragePostgreSQLReplica storage_id "storage option"
  | IStorage string storage_id

type_synonym storage_ptr = "storage option"

text \<open>
  \<^verbatim>\<open>storage->as<StoragePostgreSQLReplica>()\<close>: the object seen as a replica handle, or
  null when its dynamic type is another one.
\<close>

fun as_StoragePostgreSQLReplica :: "storage \<Rightarrow> (storage_id \<times> storage_ptr) option" where
  "as_StoragePostgreSQLReplica (StoragePostgreSQLReplica sid nested) = Some (sid, nested)"
| "as_StoragePostgreSQLReplica (IStorage engine sid) = None"

text \<open>
  Modelled from the spec: \<^verbatim>\<open>StoragePostgreSQLReplica::create\<close>,
  \<^verbatim>\<open>StoragePostgreSQLReplica::isNestedLoaded\<close> and
  \<^verbatim>\<open>StoragePostgreSQLReplica::tryGetNested\<close>, whose class is not among the source
  files. A handle is Loaded if and only if its nested storage is present;
  \<open>tryGetNested\<close> returns the nested storage if Loaded, else absent; a handle created
  with a null nested storage is Pending.
\<close>

datatype handle_state = Pending | Loaded

definition StoragePostgreSQLReplica_create :: "storage_id \<Rightarrow> storage_ptr \<Rightarrow> context \<Rightarrow> storage_ptr" where
  "StoragePostgreSQLReplica_create sid nested ctx = Some (StoragePostgreSQLReplica sid nested)"

definition isNestedLoaded :: "storage_id \<times> storage_ptr \<Rightarrow> bool" where
  "isNestedLoaded h = (snd h \<noteq> None)"

definition tryGetNested :: "storage_id \<times> storage_ptr \<Rightarrow> storage_ptr" where
  "tryGetNested h = snd h"

definition handle_state_of :: "storage_id \<times> storage_ptr \<Rightarrow> handle_state" where
  "handle_state_of h = (if snd h = None then Pending else Loaded)"

record postgresql_connection =
  conn_str :: string

record postgresql_replica_settings =
  postgresql_max_block_size_changed :: bool
  postgresql_max_block_size_value :: "64 word"
  postgresql_tables_list :: string

text \<open>The arguments of the \<^verbatim>\<open>PostgreSQLReplicationHandler\<close> constructor, in order.\<close>

record handler_args =
  arg_database_name :: string
  arg_conn_str :: string
  arg_metadata_path :: string
  arg_context :: "context"
  arg_max_block_size :: "64 word"
  arg_tables_list :: string

section \<open>Collaborators\<close>

text \<open>
  Every call the database makes to code outside the two files is recorded, in order, with
  how it ended (\<open>None\<close>: returned; \<open>Some e\<close>: threw \<open>e\<close>).
\<close>

datatype log_priority = Trace | Warning

datatype call =
    Base_loadStoredObjects_call "context" bool bool
  | Base_createTable_call "context" string storage_ptr ast
  | Base_dropTable_call "context" string bool
  | Base_drop_call "context"
  | Macros_expand_call string
  | Handler_construct_call handler_args
  | Handler_fetchRequiredTables_call
  | Handler_addStorage_call string "(storage_id \<times> storage_ptr) option"
  | Handler_startup_call
  | Handler_shutdown_call
  | Handler_shutdownFinal_call
  | File_exists_call string
  | File_remove_call string bool
  | Log_call log_priority string "nat list"

text \<open>
  The collaborators' code (the base database class \<^verbatim>\<open>Base\<close>, the replication handler,
  \<^verbatim>\<open>Poco::File\<close>, \<^verbatim>\<open>Macros\<close>) is not part of the source files: their behaviour is a
  parameter. They all act on one external state \<open>'x\<close> (catalog, disk, replication
  threads), and each of them may throw. \<open>'h\<close> is the replication handler object.
\<close>

record ('x, 'h) env =
  Base_loadStoredObjects :: "context \<Rightarrow> bool \<Rightarrow> bool \<Rightarrow> 'x \<Rightarrow> fault option \<times> 'x"
  Base_tryGetTable :: "string \<Rightarrow> context \<Rightarrow> 'x \<Rightarrow> storage_ptr"
  Base_createTable :: "context \<Rightarrow> string \<Rightarrow> storage_ptr \<Rightarrow> ast \<Rightarrow> 'x \<Rightarrow> fault option \<times> 'x"
  Base_dropTable :: "context \<Rightarrow> string \<Rightarrow> bool \<Rightarrow> 'x \<Rightarrow> fault option \<times> 'x"
  Base_drop :: "context \<Rightarrow> 'x \<Rightarrow> fault option \<times> 'x"
  Base_getMetadataPath :: "'x \<Rightarrow> string"
  Macros_expand :: "string \<Rightarrow> 'x \<Rightarrow> fault + string"
  Handler_construct :: "handler_args \<Rightarrow> 'x \<Rightarrow> (fault + 'h) \<times> 'x"
  Handler_fetchRequiredTables :: "'h \<Rightarrow> postgresql_connection \<Rightarrow> 'x \<Rightarrow> (fault + string list) \<times> 'x"
  Handler_addStorage :: "'h \<Rightarrow> string \<Rightarrow> (storage_id \<times> storage_ptr) option \<Rightarrow> 'x \<Rightarrow> fault option \<times> 'x"
  Handler_startup :: "'h \<Rightarrow> 'x \<Rightarrow> fault option \<times> 'x"
  Handler_shutdown :: "'h \<Rightarrow> 'x \<Rightarrow> fault option \<times> 'x"
  Handler_shutdownFinal :: "'h \<Rightarrow> 'x \<Rightarrow> fault option \<times> 'x"
  File_exists :: "string \<Rightarrow> 'x \<Rightarrow> bool"
  File_remove :: "string \<Rightarrow> bool \<Rightarrow> 'x \<Rightarrow> fault option \<times> 'x"

section \<open>The database object\<close>

text \<open>
  The members of \<^verbatim>\<open>DatabasePostgreSQLReplica<Base>\<close> the code uses, the external state
  \<open>ext\<close> and the record of calls \<open>trace\<close>. \<open>tables\<close> is the table registry, an ordered
  map from table name to storage pointer; \<open>replication_handler\<close> is the owning pointer to
  the handler, null until \<^verbatim>\<open>startSynchronization\<close> constructs it. \<open>log\<close> is the pointer
  \<^verbatim>\<open>Poco::Logger * log\<close>: \<open>Some n\<close> when it points to the logger named \<open>n\<close>, \<open>None\<close> when the
  constructor that built the object did not initialise it.
\<close>

record ('x, 'h) database =
  log :: "string option"
  global_context :: "context"
  metadata_path :: string
  database_engine_define :: ast
  database_name :: string
  remote_database_name :: string
  connection :: postgresql_connection
  settings :: postgresql_replica_settings
  replication_handler :: "'h option"
  tables :: "(string, storage) rbt"
  ext :: "'x"
  trace :: "(call \<times> fault option) list"

definition METADATA_SUFFIX :: string where
  "METADATA_SUFFIX = ''.postgresql_replica_metadata''"

text \<open>
  \<open>seq r k\<close>: statement \<open>k\<close> runs after a statement that ended as \<open>r\<close>, unless that one
  threw. \<open>call_ext c f\<close>: the call \<open>c\<close> to a collaborator that acts as \<open>f\<close> on the external
  state. \<open>observe c\<close>: a call that only reads, or only writes to the log. \<open>LOG p fmt args\<close>:
  \<^verbatim>\<open>LOG_TRACE(log, fmt, args)\<close> and \<^verbatim>\<open>LOG_WARNING(log, fmt)\<close>, a message of priority \<open>p\<close>
  sent through the pointer \<open>log\<close>, which the macro dereferences.
\<close>

definition seq :: "fault option \<times> 's \<Rightarrow> ('s \<Rightarrow> fault option \<times> 's) \<Rightarrow> fault option \<times> 's" where
  "seq r k = (case r of (None, s) \<Rightarrow> k s | (Some e, s) \<Rightarrow> (Some e, s))"

definition call_ext ::
  "call \<Rightarrow> ('x \<Rightarrow> fault option \<times> 'x) \<Rightarrow> ('x, 'h) database \<Rightarrow> fault option \<times> ('x, 'h) database" where
  "call_ext c f s =
     (case f (ext s) of (r, x) \<Rightarrow> (r, s\<lparr>ext := x, trace := trace s @ [(c, r)]\<rparr>))"

definition observe :: "call \<Rightarrow> ('x, 'h) database \<Rightarrow> ('x, 'h) database" where
  "observe c s = s\<lparr>trace := trace s @ [(c, None)]\<rparr>"

definition LOG ::
  "log_priority \<Rightarrow> string \<Rightarrow> nat list \<Rightarrow> ('x, 'h) database \<Rightarrow> fault option \<times> ('x, 'h) database" where
  "LOG p fmt args s =
     (case log s of
        None \<Rightarrow> (Some UninitializedPointerDereference, s)
      | Some logger \<Rightarrow> (None, observe (Log_call p fmt args) s))"

subsection \<open>Constructors\<close>

text \<open>
  Both specialisations. The first argument is the global context of the context passed
  (\<^verbatim>\<open>context.getGlobalContext()\<close>), and \<open>x\<close> is the external state once the base class is
  constructed. Members without an initialiser are default-constructed: the registry is
  empty and the handler pointer is null. The \<^verbatim>\<open>DatabaseOrdinary\<close> specialisation initialises
  \<^verbatim>\<open>log\<close> and \<^verbatim>\<open>database_name\<close>; the \<^verbatim>\<open>DatabaseAtomic\<close> one has neither in its initialiser
  list, so that its \<^verbatim>\<open>database_name\<close> is the empty string and its \<^verbatim>\<open>log\<close> is not
  initialised.
\<close>

definition DatabasePostgreSQLReplica_Ordinary ::
  "context \<Rightarrow> string \<Rightarrow> ast \<Rightarrow> string \<Rightarrow> string \<Rightarrow> postgresql_connection \<Rightarrow>
   postgresql_replica_settings \<Rightarrow> 'x \<Rightarrow> ('x, 'h) database" where
  "DatabasePostgreSQLReplica_Ordinary ctx metadata_path' database_engine_define' database_name'
       postgres_database_name connection' settings' x =
     \<lparr> log = Some ''PostgreSQLReplicaDatabaseEngine'',
       global_context = ctx, metadata_path = metadata_path',
       database_engine_define = database_engine_define',
       database_name = database_name', remote_database_name = postgres_database_name,
       connection = connection', settings = settings',
       replication_handler = None, tables = RBT.empty, ext = x, trace = [] \<rparr>"

definition DatabasePostgreSQLReplica_Atomic ::
  "context \<Rightarrow> string \<Rightarrow> ast \<Rightarrow> string \<Rightarrow> string \<Rightarrow> postgresql_connection \<Rightarrow>
   postgresql_replica_settings \<Rightarrow> 'x \<Rightarrow> ('x, 'h) database" where
  "DatabasePostgreSQLReplica_Atomic ctx metadata_path' database_engine_define' database_name'
       postgres_database_name connection' settings' x =
     \<lparr> log = None,
       global_context = ctx, metadata_path = metadata_path',
       database_engine_define = database_engine_define',
       database_name = [], remote_database_name = postgres_database_name,
       connection = connection', settings = settings',
       replication_handler = None, tables = RBT.empty, ext = x, trace = [] \<rparr>"

subsection \<open>tryGetTable, getStorage\<close>

definition tryGetTable ::
  "('x, 'h) env \<Rightarrow> string \<Rightarrow> context \<Rightarrow> ('x, 'h) database \<Rightarrow> fault + storage_ptr" where
  "tryGetTable E nm ctx s =
     (if hasQueryContext ctx \<and>
         ''ReplacingMergeTree'' \<in> query_factories_storages (getQueryContext ctx)
      then Inr (Base_tryGetTable E nm ctx (ext s))
      else
        (case RBT.lookup (tables s) nm of
           None \<Rightarrow> Inr None
         | Some t \<Rightarrow>
             (case as_StoragePostgreSQLReplica t of
                None \<Rightarrow> Inl NullPointerDereference
              | Some h \<Rightarrow> if isNestedLoaded h then Inr (Some t) else Inr None)))"

definition getStorage ::
  "('x, 'h) env \<Rightarrow> string \<Rightarrow> ('x, 'h) database \<Rightarrow> fault + storage_ptr" where
  "getStorage E nm s =
     (case tryGetTable E nm (global_context s) s of
        Inl e \<Rightarrow> Inl e
      | Inr (Some t) \<Rightarrow> Inr (Some t)
      | Inr None \<Rightarrow>
          Inr (StoragePostgreSQLReplica_create (database_name s, nm) None (global_context s)))"

subsection \<open>createTable, dropTable\<close>

definition createTable ::
  "('x, 'h) env \<Rightarrow> context \<Rightarrow> string \<Rightarrow> storage_ptr \<Rightarrow> ast \<Rightarrow> ('x, 'h) database \<Rightarrow>
   fault option \<times> ('x, 'h) database" where
  "createTable E ctx nm table query s =
     (if hasQueryContext ctx \<and>
         ''ReplacingMergeTree'' \<in> query_factories_storages (getQueryContext ctx)
      then call_ext (Base_createTable_call ctx nm table query) (Base_createTable E ctx nm table query) s
      else LOG Warning
        ''Create table query allowed only for ReplacingMergeTree engine and from synchronization thread''
        [] s)"

definition dropTable ::
  "('x, 'h) env \<Rightarrow> context \<Rightarrow> string \<Rightarrow> bool \<Rightarrow> ('x, 'h) database \<Rightarrow>
   fault option \<times> ('x, 'h) database" where
  "dropTable E ctx nm no_delay s =
     call_ext (Base_dropTable_call ctx nm no_delay) (Base_dropTable E ctx nm no_delay) s"

subsection \<open>shutdown, drop\<close>

text \<open>
  \<^verbatim>\<open>drop\<close> is \<open>drop_database\<close> here, \<open>drop\<close> being a function on lists. The existence
  check of the metadata file is recorded as a call that returns.
\<close>

definition shutdown :: "('x, 'h) env \<Rightarrow> ('x, 'h) database \<Rightarrow> fault option \<times> ('x, 'h) database" where
  "shutdown E s =
     (case replication_handler s of
        Some h \<Rightarrow> call_ext Handler_shutdown_call (Handler_shutdown E h) s
      | None \<Rightarrow> (None, s))"

definition drop_database ::
  "('x, 'h) env \<Rightarrow> context \<Rightarrow> ('x, 'h) database \<Rightarrow> fault option \<times> ('x, 'h) database" where
  "drop_database E ctx s =
     seq (case replication_handler s of
            Some h \<Rightarrow>
              seq (call_ext Handler_shutdown_call (Handler_shutdown E h) s)
                  (call_ext Handler_shutdownFinal_call (Handler_shutdownFinal E h))
          | None \<Rightarrow> (None, s))
       (\<lambda>s. let metadata = Base_getMetadataPath E (ext s) @ METADATA_SUFFIX in
          seq (if File_exists E metadata (ext s)
               then call_ext (File_remove_call metadata False) (File_remove E metadata False)
                      (observe (File_exists_call metadata) s)
               else (None, observe (File_exists_call metadata) s))
            (call_ext (Base_drop_call ctx) (Base_drop E ctx)))"

subsection \<open>startSynchronization, loadStoredObjects\<close>

text \<open>
  The loop over \<^verbatim>\<open>tables_to_replicate\<close>; the list is the set in the order the loop
  visits it.
\<close>

fun startSynchronization_loop ::
  "('x, 'h) env \<Rightarrow> 'h \<Rightarrow> string list \<Rightarrow> ('x, 'h) database \<Rightarrow> fault option \<times> ('x, 'h) database" where
  "startSynchronization_loop E h [] s = (None, s)"
| "startSynchronization_loop E h (table_name # rest) s =
     (case getStorage E table_name s of
        Inl e \<Rightarrow> (Some e, s)
      | Inr None \<Rightarrow> startSynchronization_loop E h rest s
      | Inr (Some storage) \<Rightarrow>
          seq (seq (call_ext (Handler_addStorage_call table_name (as_StoragePostgreSQLReplica storage))
                      (Handler_addStorage E h table_name (as_StoragePostgreSQLReplica storage)) s)
                 (\<lambda>s. (None, s\<lparr>tables := RBT.insert table_name storage (tables s)\<rparr>)))
            (startSynchronization_loop E h rest))"

definition handler_arguments :: "('x, 'h) database \<Rightarrow> string \<Rightarrow> handler_args" where
  "handler_arguments s tables_list =
     \<lparr> arg_database_name = remote_database_name s,
       arg_conn_str = conn_str (connection s),
       arg_metadata_path = metadata_path s @ METADATA_SUFFIX,
       arg_context = global_context s,
       arg_max_block_size =
         (if postgresql_max_block_size_changed (settings s)
          then postgresql_max_block_size_value (settings s)
          else max_insert_block_size (global_context s)),
       arg_tables_list = tables_list \<rparr>"

definition startSynchronization ::
  "('x, 'h) env \<Rightarrow> ('x, 'h) database \<Rightarrow> fault option \<times> ('x, 'h) database" where
  "startSynchronization E s =
     (let pattern = postgresql_tables_list (settings s) in
      case Macros_expand E pattern (ext s) of
        Inl e \<Rightarrow> (Some e, s\<lparr>trace := trace s @ [(Macros_expand_call pattern, Some e)]\<rparr>)
      | Inr tables_list \<Rightarrow>
          let s = observe (Macros_expand_call pattern) s;
              args = handler_arguments s tables_list in
          (case Handler_construct E args (ext s) of
             (Inl e, x) \<Rightarrow>
               (Some e, s\<lparr>ext := x, trace := trace s @ [(Handler_construct_call args, Some e)]\<rparr>)
           | (Inr h, x) \<Rightarrow>
               let s = s\<lparr>replication_handler := Some h, ext := x,
                         trace := trace s @ [(Handler_construct_call args, None)]\<rparr> in
               (case Handler_fetchRequiredTables E h (connection s) (ext s) of
                  (Inl e, x) \<Rightarrow>
                    (Some e, s\<lparr>ext := x,
                               trace := trace s @ [(Handler_fetchRequiredTables_call, Some e)]\<rparr>)
                | (Inr tables_to_replicate, x) \<Rightarrow>
                    seq (seq (startSynchronization_loop E h tables_to_replicate
                                (s\<lparr>ext := x,
                                   trace := trace s @ [(Handler_fetchRequiredTables_call, None)]\<rparr>))
                           (\<lambda>s. LOG Trace ''Loaded {} tables. Starting synchronization''
                                  [length (RBT.keys (tables s))] s))
                      (call_ext Handler_startup_call (Handler_startup E h)))))"


subsection \<open>getTablesIterator\<close>

record database_tables_snapshot_iterator =
  snapshot_tables :: "(string, storage) rbt"
  snapshot_database_name :: string

text \<open>
  The loop over the registry, in key order, filling \<^verbatim>\<open>nested_tables\<close>. The source ignores
  both of its parameters (the context and the filter by table name), which the model leaves
  out.
\<close>

fun getTablesIterator_loop ::
  "(string \<times> storage) list \<Rightarrow> (string, storage) rbt \<Rightarrow> fault + (string, storage) rbt" where
  "getTablesIterator_loop [] nested_tables = Inr nested_tables"
| "getTablesIterator_loop ((table_name, storage) # rest) nested_tables =
     (case as_StoragePostgreSQLReplica storage of
        None \<Rightarrow> Inl NullPointerDereference
      | Some h \<Rightarrow>
          (case tryGetNested h of
             Some nested_storage \<Rightarrow>
               getTablesIterator_loop rest (RBT.insert table_name nested_storage nested_tables)
           | None \<Rightarrow> getTablesIterator_loop rest nested_tables))"

definition getTablesIterator ::
  "('x, 'h) database \<Rightarrow> fault + database_tables_snapshot_iterator" where
  "getTablesIterator s =
     (case getTablesIterator_loop (RBT.entries (tables s)) RBT.empty of
        Inl e \<Rightarrow> Inl e
      | Inr nested_tables \<Rightarrow>
          Inr \<lparr> snapshot_tables = nested_tables, snapshot_database_name = database_name s \<rparr>)"

section \<open>The select/union interpreter's constructor\<close>

record select_query_options =
  shard_num :: "32 word option"
  shard_count :: "32 word option"

record interpreter =
  query_ptr :: ast
  interpreter_context :: "context"
  result_header :: block
  options :: select_query_options
  max_streams :: "64 word"
  settings_limit_offset_needed :: bool
  settings_limit_offset_done :: bool
  uses_view_source :: bool

text \<open>
  Modelled from the spec: \<^verbatim>\<open>Context::addSpecialScalar\<close> and \<^verbatim>\<open>Context::createCopy\<close>,
  whose class is not among the source files. A scalar constant is injected into the
  execution context under its name; a copy of a context has the content of the original.
\<close>

definition addSpecialScalar :: "string \<Rightarrow> block \<Rightarrow> context \<Rightarrow> context" where
  "addSpecialScalar nm b c =
     (case c of Context qc st mi mt sc \<Rightarrow> Context qc st mi mt (sc(nm \<mapsto> b)))"

definition createCopy :: "context \<Rightarrow> context" where
  "createCopy c = c"

definition IInterpreterUnionOrSelectQuery ::
  "ast \<Rightarrow> context \<Rightarrow> select_query_options \<Rightarrow> interpreter" where
  "IInterpreterUnionOrSelectQuery query_ptr' context' options' =
     (let c = (case shard_num options' of
                 Some n \<Rightarrow>
                   addSpecialScalar ''_shard_num''
                     [\<lparr> column = ColumnConst DataTypeUInt32 1 n, type = DataTypeUInt32,
                        name = ''_shard_num'' \<rparr>] context'
               | None \<Rightarrow> context');
          c = (case shard_count options' of
                 Some n \<Rightarrow>
                   addSpecialScalar ''_shard_count''
                     [\<lparr> column = ColumnConst DataTypeUInt32 1 n, type = DataTypeUInt32,
                        name = ''_shard_count'' \<rparr>] c
               | None \<Rightarrow> c)
      in \<lparr> query_ptr = query_ptr', interpreter_context = c, result_header = [],
           options = options', max_streams = max_threads context',
           settings_limit_offset_needed = False, settings_limit_offset_done = False,
           uses_view_source = False \<rparr>)"

definition IInterpreterUnionOrSelectQuery_copy ::
  "ast \<Rightarrow> context \<Rightarrow> select_query_options \<Rightarrow> interpreter" where
  "IInterpreterUnionOrSelectQuery_copy query_ptr' context' options' =
     IInterpreterUnionOrSelectQuery query_ptr' (createCopy context') options'"

section \<open>Vocabulary of the specification\<close>

text \<open>
  The privileged marker of a caller context: the test both \<^verbatim>\<open>tryGetTable\<close> and
  \<^verbatim>\<open>createTable\<close> make, a query context whose set of storage engine names contains
  \<^verbatim>\<open>ReplacingMergeTree\<close> (the kind of the replica-target tables the synchronization
  thread creates).
\<close>

definition carries_privileged_marker :: "context \<Rightarrow> bool" where
  "carries_privileged_marker ctx =
     (case query_context ctx of
        None \<Rightarrow> False
      | Some qc \<Rightarrow> ''ReplacingMergeTree'' \<in> query_factories_storages qc)"

text \<open>
  The specification's account of the loop of synchronization startup (section 4.1), which
  the loop of \<^verbatim>\<open>startSynchronization\<close> is compared with below. For each required name an
  existing handle is obtained via the lookup path: the underlying catalog's own lookup when
  the global context carries the privileged marker, otherwise the registry's handle if it
  is Loaded. When the lookup finds none, a new Pending handle is created. The handle is
  registered with the coordinator and inserted into the registry. The result is the list
  of registrations made, the external state they leave and the registry.
\<close>

definition spec_lookup_path ::
  "('x, 'h) env \<Rightarrow> context \<Rightarrow> string \<Rightarrow> 'x \<Rightarrow> (string, storage) rbt \<Rightarrow> storage_ptr" where
  "spec_lookup_path E gctx nm x registry =
     (if carries_privileged_marker gctx then Base_tryGetTable E nm gctx x
      else
        (case RBT.lookup registry nm of
           None \<Rightarrow> None
         | Some t \<Rightarrow>
             (case as_StoragePostgreSQLReplica t of
                None \<Rightarrow> None
              | Some h \<Rightarrow> if handle_state_of h = Loaded then Some t else None)))"

definition spec_handle_for ::
  "('x, 'h) env \<Rightarrow> context \<Rightarrow> string \<Rightarrow> string \<Rightarrow> 'x \<Rightarrow> (string, storage) rbt \<Rightarrow> storage" where
  "spec_handle_for E gctx db nm x registry =
     (case spec_lookup_path E gctx nm x registry of
        Some t \<Rightarrow> t
      | None \<Rightarrow> StoragePostgreSQLReplica (db, nm) None)"

fun spec_register_required ::
  "('x, 'h) env \<Rightarrow> 'h \<Rightarrow> context \<Rightarrow> string \<Rightarrow> string list \<Rightarrow> 'x \<Rightarrow> (string, storage) rbt \<Rightarrow>
   (call \<times> fault option) list \<times> 'x \<times> (string, storage) rbt" where
  "spec_register_required E h gctx db [] x registry = ([], x, registry)"
| "spec_register_required E h gctx db (nm # rest) x registry =
     (let t = spec_handle_for E gctx db nm x registry;
          later = spec_register_required E h gctx db rest
                    (snd (Handler_addStorage E h nm (as_StoragePostgreSQLReplica t) x))
                    (RBT.insert nm t registry)
      in ((Handler_addStorage_call nm (as_StoragePostgreSQLReplica t), None) # fst later,
          snd later))"

section \<open>A concrete installation\<close>

text \<open>
  A small instance of the collaborators, on which the theorems below are exercised: a
  catalog kept as a list, a disk as a list of paths, and a replication handler that records
  what it is asked to do. Its \<open>shutdown\<close> only raises a flag.
\<close>

record example_ext =
  ex_catalog :: "(string \<times> storage) list"
  ex_files :: "string list"
  ex_required :: "string list"
  ex_registered :: "string list"
  ex_started :: bool
  ex_stop_requested :: bool
  ex_joined :: bool

definition example_env :: "(example_ext, nat) env" where
  "example_env =
     \<lparr> Base_loadStoredObjects = (\<lambda>ctx a b x. (None, x)),
       Base_tryGetTable = (\<lambda>nm ctx x. map_of (ex_catalog x) nm),
       Base_createTable = (\<lambda>ctx nm table query x.
          case table of
            None \<Rightarrow> (Some (Exception ''LOGICAL_ERROR''), x)
          | Some t \<Rightarrow>
              if map_of (ex_catalog x) nm \<noteq> None
              then (Some (Exception ''TABLE_ALREADY_EXISTS''), x)
              else (None, x\<lparr>ex_catalog := (nm, t) # ex_catalog x\<rparr>)),
       Base_dropTable = (\<lambda>ctx nm no_delay x.
          if map_of (ex_catalog x) nm = None
          then (Some (Exception ''UNKNOWN_TABLE''), x)
          else (None, x\<lparr>ex_catalog := filter (\<lambda>p. fst p \<noteq> nm) (ex_catalog x)\<rparr>)),
       Base_drop = (\<lambda>ctx x. (None, x\<lparr>ex_catalog := []\<rparr>)),
       Base_getMetadataPath = (\<lambda>x. ''/metadata/pg''),
       Macros_expand = (\<lambda>pattern x. Inr pattern),
       Handler_construct = (\<lambda>args x. (Inr 0, x)),
       Handler_fetchRequiredTables = (\<lambda>h c x. (Inr (ex_required x), x)),
       Handler_addStorage = (\<lambda>h nm t x. (None, x\<lparr>ex_registered := ex_registered x @ [nm]\<rparr>)),
       Handler_startup = (\<lambda>h x. (None, x\<lparr>ex_started := True\<rparr>)),
       Handler_shutdown = (\<lambda>h x. (None, x\<lparr>ex_stop_requested := True\<rparr>)),
       Handler_shutdownFinal = (\<lambda>h x. (None, x\<lparr>ex_joined := True\<rparr>)),
       File_exists = (\<lambda>path x. path \<in> set (ex_files x)),
       File_remove = (\<lambda>path recursive x. (None, x\<lparr>ex_files := removeAll path (ex_files x)\<rparr>)) \<rparr>"


definition example_ext0 :: example_ext where
  "example_ext0 =
     \<lparr> ex_catalog = [], ex_files = [''/metadata/pg.postgresql_replica_metadata''],
       ex_required = [''orders'', ''customers''], ex_registered = [],
       ex_started = False, ex_stop_requested = False, ex_joined = False \<rparr>"

definition example_global_context :: "context" where
  "example_global_context = Context None {} 1048576 16 Map.empty"

definition example_user_context :: "context" where
  "example_user_context =
     Context (Some (Context None {''MergeTree''} 1048576 16 Map.empty)) {} 1048576 16 Map.empty"

definition example_sync_context :: "context" where
  "example_sync_context =
     Context (Some (Context None {''ReplacingMergeTree''} 1048576 16 Map.empty)) {} 1048576 16
       Map.empty"

definition example_database :: "(example_ext, nat) database" where
  "example_database =
     DatabasePostgreSQLReplica_Ordinary example_global_context ''/metadata/pg''
       ''ENGINE = PostgreSQLReplica'' ''pg'' ''postgres'' \<lparr> conn_str = ''host=remote'' \<rparr>
       \<lparr> postgresql_max_block_size_changed = False, postgresql_max_block_size_value = 0,
         postgresql_tables_list = ''orders,customers'' \<rparr>
       example_ext0"

text \<open>The same declaration built by the \<^verbatim>\<open>DatabaseAtomic\<close> specialisation.\<close>

definition example_atomic_database :: "(example_ext, nat) database" where
  "example_atomic_database =
     DatabasePostgreSQLReplica_Atomic example_global_context ''/metadata/pg''
       ''ENGINE = PostgreSQLReplica'' ''pg'' ''postgres'' \<lparr> conn_str = ''host=remote'' \<rparr>
       \<lparr> postgresql_max_block_size_changed = False, postgresql_max_block_size_value = 0,
         postgresql_tables_list = ''orders,customers'' \<rparr>
       example_ext0"

definition example_loaded_handle :: storage where
  "example_loaded_handle =
     StoragePostgreSQLReplica (''pg'', ''orders'')
       (Some (IStorage ''ReplacingMergeTree'' (''pg'', ''orders'')))"

definition example_pending_handle :: storage where
  "example_pending_handle = StoragePostgreSQLReplica (''pg'', ''customers'') None"

definition example_running :: "(example_ext, nat) database" where
  "example_running =
     example_database
       \<lparr> replication_handler := Some 0,
         tables := RBT.insert ''orders'' example_loaded_handle
                     (RBT.insert ''customers'' example_pending_handle RBT.empty) \<rparr>"


definition example_options :: select_query_options where
  "example_options = \<lparr> shard_num = Some 2, shard_count = None \<rparr>"

section \<open>Properties of createTable and dropTable\<close>

lemma constructed_registry_empty:
  "tables (DatabasePostgreSQLReplica_Ordinary g m e d r c st x) = RBT.empty"
  "replication_handler (DatabasePostgreSQLReplica_Ordinary g m e d r c st x) = None"
  "tables (DatabasePostgreSQLReplica_Atomic g m e d r c st x) = RBT.empty"
  "replication_handler (DatabasePostgreSQLReplica_Atomic g m e d r c st x) = None"
  by (simp_all add: DatabasePostgreSQLReplica_Ordinary_def DatabasePostgreSQLReplica_Atomic_def)

lemma marker_iff:
  "(hasQueryContext ctx \<and> ''ReplacingMergeTree'' \<in> query_factories_storages (getQueryContext ctx))
     = carries_privileged_marker ctx"
  by (cases "query_context ctx")
     (simp_all add: hasQueryContext_def getQueryContext_def carries_privileged_marker_def)

lemma createTable_unprivileged_logged:
  "\<not> carries_privileged_marker ctx \<Longrightarrow> log s = Some logger \<Longrightarrow>
   createTable E ctx nm table query s =
     (None,
      s\<lparr>trace := trace s @
         [(Log_call Warning
             ''Create table query allowed only for ReplacingMergeTree engine and from synchronization thread''
             [], None)]\<rparr>)"
  by (simp add: createTable_def marker_iff LOG_def observe_def)

lemma createTable_unprivileged_unlogged:
  "\<not> carries_privileged_marker ctx \<Longrightarrow> log s = None \<Longrightarrow>
   createTable E ctx nm table query s = (Some UninitializedPointerDereference, s)"
  by (simp add: createTable_def marker_iff LOG_def)

text \<open>
  C2. A \<^verbatim>\<open>createTable\<close> whose caller context does not carry the privileged marker never
  changes the state: the registry, the handler pointer and the external state (the
  underlying catalog) are as before. It does not return normally for every prior state,
  though. On a database built by the \<^verbatim>\<open>DatabaseOrdinary\<close> constructor, and on every state
  whose \<^verbatim>\<open>log\<close> is initialised, it sends one warning to the logger and returns
  (\<open>createTable_unprivileged_logged\<close>). On a database built by the \<^verbatim>\<open>DatabaseAtomic\<close>
  constructor, whatever its arguments, the warning is sent through the pointer \<^verbatim>\<open>log\<close>
  that this constructor leaves uninitialised, and the call ends in a fault, not in a
  diagnostic.
\<close>

theorem createTable_unprivileged_atomic_fault:
  "\<not> carries_privileged_marker ctx \<Longrightarrow>
   createTable E ctx nm table query
       (DatabasePostgreSQLReplica_Atomic g m e d r c st x) =
     (Some UninitializedPointerDereference, DatabasePostgreSQLReplica_Atomic g m e d r c st x) \<and>
   createTable E ctx nm table query
       (DatabasePostgreSQLReplica_Ordinary g m e d r c st x) =
     (None,
      (DatabasePostgreSQLReplica_Ordinary g m e d r c st x)
        \<lparr>trace :=
           [(Log_call Warning
               ''Create table query allowed only for ReplacingMergeTree engine and from synchronization thread''
               [], None)]\<rparr>)"
proof -
  assume u: "\<not> carries_privileged_marker ctx"
  have a: "log (DatabasePostgreSQLReplica_Atomic g m e d r c st x :: ('a, 'b) database) = None"
    by (simp add: DatabasePostgreSQLReplica_Atomic_def)
  have o: "log (DatabasePostgreSQLReplica_Ordinary g m e d r c st x :: ('a, 'b) database) =
             Some ''PostgreSQLReplicaDatabaseEngine''"
    and tr: "trace (DatabasePostgreSQLReplica_Ordinary g m e d r c st x :: ('a, 'b) database) = []"
    by (simp_all add: DatabasePostgreSQLReplica_Ordinary_def)
  show ?thesis
    using createTable_unprivileged_unlogged [OF u a, of E nm table query]
      createTable_unprivileged_logged [OF u o, of E nm table query] tr
    by simp
qed

theorem createTable_unprivileged_atomic_fault_witness:
  "\<not> carries_privileged_marker example_user_context \<and>
   fst (createTable example_env example_user_context ''orders''
          (Some (IStorage ''MergeTree'' (''pg'', ''orders''))) ''CREATE TABLE orders''
          example_atomic_database) = Some UninitializedPointerDereference \<and>
   trace (snd (createTable example_env example_user_context ''orders''
          (Some (IStorage ''MergeTree'' (''pg'', ''orders''))) ''CREATE TABLE orders''
          example_atomic_database)) = []"
proof -
  have u: "\<not> carries_privileged_marker example_user_context"
    by (simp add: carries_privileged_marker_def example_user_context_def)
  from createTable_unprivileged_atomic_fault [OF u, of example_env "''orders''"
      "Some (IStorage ''MergeTree'' (''pg'', ''orders''))" "''CREATE TABLE orders''"
      example_global_context "''/metadata/pg''" "''ENGINE = PostgreSQLReplica''" "''pg''"
      "''postgres''" "\<lparr> conn_str = ''host=remote'' \<rparr>"
      "\<lparr> postgresql_max_block_size_changed = False, postgresql_max_block_size_value = 0,
         postgresql_tables_list = ''orders,customers'' \<rparr>" example_ext0]
  have "createTable example_env example_user_context ''orders''
          (Some (IStorage ''MergeTree'' (''pg'', ''orders''))) ''CREATE TABLE orders''
          example_atomic_database = (Some UninitializedPointerDereference, example_atomic_database)"
    by (simp add: example_atomic_database_def)
  then show ?thesis using u
    by (simp add: example_atomic_database_def DatabasePostgreSQLReplica_Atomic_def)
qed

text \<open>
  C6. A \<^verbatim>\<open>createTable\<close> whose caller context carries the privileged marker is the
  underlying catalog's own \<^verbatim>\<open>createTable\<close>: it returns or throws what that call returns
  or throws, the external state is the one that call leaves, the members of the database
  are untouched, and nothing else is called. This holds for every storage passed, so also
  for those of the replica-target kind.
\<close>

theorem createTable_privileged_delegates:
  "carries_privileged_marker ctx \<Longrightarrow>
   fst (createTable E ctx nm table query s) = fst (Base_createTable E ctx nm table query (ext s)) \<and>
   ext (snd (createTable E ctx nm table query s)) = snd (Base_createTable E ctx nm table query (ext s)) \<and>
   snd (createTable E ctx nm table query s) =
     s\<lparr>ext := snd (Base_createTable E ctx nm table query (ext s)),
       trace := trace s @
        [(Base_createTable_call ctx nm table query,
          fst (Base_createTable E ctx nm table query (ext s)))]\<rparr>"
  by (simp add: createTable_def marker_iff call_ext_def split: prod.splits)

theorem createTable_privileged_delegates_witness:
  "carries_privileged_marker example_sync_context \<and>
   fst (createTable example_env example_sync_context ''orders''
          (Some (IStorage ''ReplacingMergeTree'' (''pg'', ''orders''))) ''CREATE TABLE orders''
          example_running) = None \<and>
   ex_catalog (ext (snd (createTable example_env example_sync_context ''orders''
          (Some (IStorage ''ReplacingMergeTree'' (''pg'', ''orders''))) ''CREATE TABLE orders''
          example_running))) = [(''orders'', IStorage ''ReplacingMergeTree'' (''pg'', ''orders''))]"
  using createTable_privileged_delegates [of example_sync_context example_env "''orders''"
      "Some (IStorage ''ReplacingMergeTree'' (''pg'', ''orders''))" "''CREATE TABLE orders''"
      example_running]
  by (simp add: carries_privileged_marker_def example_sync_context_def example_running_def
        example_database_def DatabasePostgreSQLReplica_Ordinary_def example_env_def
        example_ext0_def)

text \<open>
  C10. \<^verbatim>\<open>dropTable\<close> is the underlying catalog's table-level drop and nothing else: its
  result and the external state are those of that call, which is the only call made (the
  replication handler is not called), and the members of the database are unchanged; the
  registry still maps the dropped name to what it mapped it to.
\<close>

theorem dropTable_frame:
  "fst (dropTable E ctx nm no_delay s) = fst (Base_dropTable E ctx nm no_delay (ext s)) \<and>
   ext (snd (dropTable E ctx nm no_delay s)) = snd (Base_dropTable E ctx nm no_delay (ext s)) \<and>
   tables (snd (dropTable E ctx nm no_delay s)) = tables s \<and>
   RBT.lookup (tables (snd (dropTable E ctx nm no_delay s))) nm = RBT.lookup (tables s) nm \<and>
   replication_handler (snd (dropTable E ctx nm no_delay s)) = replication_handler s \<and>
   trace (snd (dropTable E ctx nm no_delay s)) =
     trace s @ [(Base_dropTable_call ctx nm no_delay, fst (Base_dropTable E ctx nm no_delay (ext s)))] \<and>
   snd (dropTable E ctx nm no_delay s) =
     s\<lparr>ext := ext (snd (dropTable E ctx nm no_delay s)),
       trace := trace (snd (dropTable E ctx nm no_delay s))\<rparr>"
  by (simp add: dropTable_def call_ext_def split: prod.splits)

theorem dropTable_frame_witness:
  "RBT.lookup (tables (snd (dropTable example_env example_user_context ''orders'' False
      example_running))) ''orders'' = Some example_loaded_handle \<and>
   replication_handler (snd (dropTable example_env example_user_context ''orders'' False
      example_running)) = Some 0"
  using dropTable_frame [of example_env example_user_context "''orders''" False example_running]
  by (simp add: example_running_def)

section \<open>Properties of tryGetTable and getTablesIterator\<close>

text \<open>
  C3. For a caller context without the privileged marker, and a registry whose entry for
  the name, if any, is a table handle, \<^verbatim>\<open>tryGetTable\<close> returns normally; what it returns
  is the registry's handle for the name if and only if that handle exists and is Loaded
  (its nested storage is present), and is absent in every other case.
\<close>

theorem tryGetTable_unprivileged:
  assumes "\<not> carries_privileged_marker ctx"
      and "\<forall>t. RBT.lookup (tables s) nm = Some t \<longrightarrow> as_StoragePostgreSQLReplica t \<noteq> None"
  shows "\<exists>r. tryGetTable E nm ctx s = Inr r \<and>
           (\<forall>t. r = Some t \<longleftrightarrow>
              RBT.lookup (tables s) nm = Some t \<and>
              (\<exists>h. as_StoragePostgreSQLReplica t = Some h \<and> handle_state_of h = Loaded \<and>
                   tryGetNested h \<noteq> None))"
  using assms
  by (auto simp: tryGetTable_def marker_iff handle_state_of_def isNestedLoaded_def tryGetNested_def
           split: option.splits)

theorem tryGetTable_unprivileged_witness:
  "\<not> carries_privileged_marker example_user_context \<and>
   RBT.lookup (tables example_running) ''customers'' = Some example_pending_handle \<and>
   as_StoragePostgreSQLReplica example_pending_handle \<noteq> None \<and>
   tryGetTable example_env ''customers'' example_user_context example_running = Inr None"
proof -
  have 1: "\<not> carries_privileged_marker example_user_context"
    by (simp add: carries_privileged_marker_def example_user_context_def)
  have 2: "\<forall>t. RBT.lookup (tables example_running) ''customers'' = Some t \<longrightarrow>
             as_StoragePostgreSQLReplica t \<noteq> None"
    by (simp add: example_running_def example_pending_handle_def)
  from tryGetTable_unprivileged [OF 1 2, of example_env] obtain r where
    r: "tryGetTable example_env ''customers'' example_user_context example_running = Inr r"
    and iff: "\<forall>t. r = Some t \<longleftrightarrow>
                RBT.lookup (tables example_running) ''customers'' = Some t \<and>
                (\<exists>h. as_StoragePostgreSQLReplica t = Some h \<and> handle_state_of h = Loaded \<and>
                     tryGetNested h \<noteq> None)"
    by blast
  have "r = None"
  proof (cases r)
    case None
    then show ?thesis .
  next
    case (Some t)
    with iff have "RBT.lookup (tables example_running) ''customers'' = Some t"
      and "\<exists>h. as_StoragePostgreSQLReplica t = Some h \<and> tryGetNested h \<noteq> None"
      by blast+
    then show ?thesis
      by (auto simp: example_running_def example_pending_handle_def tryGetNested_def)
  qed
  moreover have "RBT.lookup (tables example_running) ''customers'' = Some example_pending_handle"
    and "as_StoragePostgreSQLReplica example_pending_handle \<noteq> None"
    by (simp_all add: example_running_def example_pending_handle_def)
  ultimately show ?thesis using 1 r by simp
qed

lemma getTablesIterator_loop_lookup:
  assumes "\<forall>(nm, t) \<in> set es. as_StoragePostgreSQLReplica t \<noteq> None"
      and "distinct (map fst es)"
  shows "\<exists>r. getTablesIterator_loop es acc = Inr r \<and>
           (\<forall>nm. RBT.lookup r nm =
              (case map_of es nm of
                 None \<Rightarrow> RBT.lookup acc nm
               | Some t \<Rightarrow>
                   (case Option.bind (as_StoragePostgreSQLReplica t) tryGetNested of
                      None \<Rightarrow> RBT.lookup acc nm
                    | Some v \<Rightarrow> Some v)))"
  using assms
proof (induction es arbitrary: acc)
  case Nil
  then show ?case by simp
next
  case (Cons a es)
  obtain nm t where a: "a = (nm, t)" by (cases a)
  from Cons.prems a obtain h where h: "as_StoragePostgreSQLReplica t = Some h" by auto
  have rest: "\<forall>(nm, t) \<in> set es. as_StoragePostgreSQLReplica t \<noteq> None" "distinct (map fst es)"
    using Cons.prems by auto
  have fresh: "map_of es nm = None" using Cons.prems a
    by (simp add: map_of_eq_None_iff)
  show ?case
  proof (cases "tryGetNested h")
    case None
    from Cons.IH[OF rest, of acc] obtain r where
      r: "getTablesIterator_loop es acc = Inr r"
         "\<forall>k. RBT.lookup r k = (case map_of es k of None \<Rightarrow> RBT.lookup acc k
            | Some t \<Rightarrow> (case Option.bind (as_StoragePostgreSQLReplica t) tryGetNested of
                 None \<Rightarrow> RBT.lookup acc k | Some v \<Rightarrow> Some v))" by blast
    show ?thesis using a h None r fresh by (auto split: option.splits)
  next
    case (Some v)
    from Cons.IH[OF rest, of "RBT.insert nm v acc"] obtain r where
      r: "getTablesIterator_loop es (RBT.insert nm v acc) = Inr r"
         "\<forall>k. RBT.lookup r k = (case map_of es k of None \<Rightarrow> RBT.lookup (RBT.insert nm v acc) k
            | Some t \<Rightarrow> (case Option.bind (as_StoragePostgreSQLReplica t) tryGetNested of
                 None \<Rightarrow> RBT.lookup (RBT.insert nm v acc) k | Some v \<Rightarrow> Some v))" by blast
    show ?thesis using a h Some r fresh by (auto split: option.splits)
  qed
qed

lemma keys_lookup: "k \<in> set (RBT.keys t) \<longleftrightarrow> RBT.lookup t k \<noteq> None"
  by (simp add: RBT.keys_entries RBT.lookup_in_tree [symmetric])

text \<open>
  C4. For a registry whose entries are table handles, \<^verbatim>\<open>getTablesIterator\<close> returns a
  snapshot whose names are exactly the names of the registry entries with a nested storage
  present; each name is listed with that nested storage, so no entry of the snapshot comes
  from a Pending handle.
\<close>

theorem getTablesIterator_only_loaded:
  assumes "\<forall>nm t. RBT.lookup (tables s) nm = Some t \<longrightarrow> as_StoragePostgreSQLReplica t \<noteq> None"
  shows "\<exists>it. getTablesIterator s = Inr it \<and> snapshot_database_name it = database_name s \<and>
           (\<forall>nm. nm \<in> set (RBT.keys (snapshot_tables it)) \<longleftrightarrow>
              (\<exists>t h. RBT.lookup (tables s) nm = Some t \<and> as_StoragePostgreSQLReplica t = Some h \<and>
                     tryGetNested h \<noteq> None)) \<and>
           (\<forall>nm v. RBT.lookup (snapshot_tables it) nm = Some v \<longrightarrow>
              (\<exists>t h. RBT.lookup (tables s) nm = Some t \<and> as_StoragePostgreSQLReplica t = Some h \<and>
                     tryGetNested h = Some v \<and> handle_state_of h = Loaded))"
proof -
  have wf: "\<forall>(nm, t) \<in> set (RBT.entries (tables s)). as_StoragePostgreSQLReplica t \<noteq> None"
    using assms by (auto simp: RBT.lookup_in_tree [symmetric])
  from getTablesIterator_loop_lookup[OF wf RBT.distinct_entries, of RBT.empty]
  obtain r where r: "getTablesIterator_loop (RBT.entries (tables s)) RBT.empty = Inr r"
    and l0: "\<forall>nm. RBT.lookup r nm =
              (case map_of (RBT.entries (tables s)) nm of
                 None \<Rightarrow> RBT.lookup RBT.empty nm
               | Some t \<Rightarrow>
                   (case Option.bind (as_StoragePostgreSQLReplica t) tryGetNested of
                      None \<Rightarrow> RBT.lookup RBT.empty nm
                    | Some v \<Rightarrow> Some v))"
    by blast
  have l: "\<forall>nm. RBT.lookup r nm =
              (case RBT.lookup (tables s) nm of None \<Rightarrow> None
               | Some t \<Rightarrow> Option.bind (as_StoragePostgreSQLReplica t) tryGetNested)"
  proof
    fix nm
    show "RBT.lookup r nm =
              (case RBT.lookup (tables s) nm of None \<Rightarrow> None
               | Some t \<Rightarrow> Option.bind (as_StoragePostgreSQLReplica t) tryGetNested)"
      using l0[rule_format, of nm] by (simp split: option.splits)
  qed
  have 1: "getTablesIterator s = Inr \<lparr> snapshot_tables = r, snapshot_database_name = database_name s \<rparr>"
    using r by (simp add: getTablesIterator_def)
  have 2: "\<forall>nm. nm \<in> set (RBT.keys r) \<longleftrightarrow>
              (\<exists>t h. RBT.lookup (tables s) nm = Some t \<and> as_StoragePostgreSQLReplica t = Some h \<and>
                     tryGetNested h \<noteq> None)"
    using l by (auto simp: keys_lookup split: option.splits Option.bind_splits)
  have 3: "\<forall>nm v. RBT.lookup r nm = Some v \<longrightarrow>
              (\<exists>t h. RBT.lookup (tables s) nm = Some t \<and> as_StoragePostgreSQLReplica t = Some h \<and>
                     tryGetNested h = Some v \<and> handle_state_of h = Loaded)"
    using l by (auto simp: handle_state_of_def tryGetNested_def split: option.splits Option.bind_splits)
  show ?thesis using 1 2 3 by simp
qed

theorem getTablesIterator_only_loaded_witness:
  "RBT.lookup (tables example_running) ''orders'' = Some example_loaded_handle \<and>
   RBT.lookup (tables example_running) ''customers'' = Some example_pending_handle \<and>
   (\<exists>it. getTablesIterator example_running = Inr it \<and>
      ''orders'' \<in> set (RBT.keys (snapshot_tables it)) \<and>
      ''customers'' \<notin> set (RBT.keys (snapshot_tables it)))"
proof -
  have 1: "\<forall>nm t. RBT.lookup (tables example_running) nm = Some t \<longrightarrow>
             as_StoragePostgreSQLReplica t \<noteq> None"
    by (simp add: example_running_def example_pending_handle_def example_loaded_handle_def)
  from getTablesIterator_only_loaded [OF 1] obtain it where
    it: "getTablesIterator example_running = Inr it"
    and k: "\<forall>nm. nm \<in> set (RBT.keys (snapshot_tables it)) \<longleftrightarrow>
              (\<exists>t h. RBT.lookup (tables example_running) nm = Some t \<and>
                     as_StoragePostgreSQLReplica t = Some h \<and> tryGetNested h \<noteq> None)"
    by blast
  have "''orders'' \<in> set (RBT.keys (snapshot_tables it))"
    using k by (simp add: example_running_def example_loaded_handle_def tryGetNested_def)
  moreover have "''customers'' \<notin> set (RBT.keys (snapshot_tables it))"
    using k by (simp add: example_running_def example_pending_handle_def tryGetNested_def)
  moreover have "RBT.lookup (tables example_running) ''orders'' = Some example_loaded_handle"
    and "RBT.lookup (tables example_running) ''customers'' = Some example_pending_handle"
    by (simp_all add: example_running_def)
  ultimately show ?thesis using it by blast
qed

section \<open>Properties of shutdown and drop\<close>

text \<open>
  C8. Provided the replication handler's own \<^verbatim>\<open>shutdown\<close> is idempotent (a second call
  after one that returned leaves the external state as it is and returns), calling the
  database's \<^verbatim>\<open>shutdown\<close> twice ends as calling it once does: the same result, the same
  members and the same external state; only the record of calls is longer. Whatever the
  handler does, \<^verbatim>\<open>shutdown\<close> calls nothing but the handler's \<^verbatim>\<open>shutdown\<close>: not
  \<^verbatim>\<open>shutdownFinal\<close>, and no file operation; without a handler it does nothing.
\<close>

theorem shutdown_idempotent:
  assumes idem: "\<forall>h x x'. Handler_shutdown E h x = (None, x') \<longrightarrow> Handler_shutdown E h x' = (None, x')"
  shows "fst (seq (shutdown E s) (shutdown E)) = fst (shutdown E s) \<and>
         snd (seq (shutdown E s) (shutdown E)) =
           (snd (shutdown E s))\<lparr>trace := trace (snd (seq (shutdown E s) (shutdown E)))\<rparr> \<and>
         (\<exists>new. trace (snd (shutdown E s)) = trace s @ new \<and>
                (\<forall>c r. (c, r) \<in> set new \<longrightarrow> c = Handler_shutdown_call)) \<and>
         (replication_handler s = None \<longrightarrow> shutdown E s = (None, s))"
proof (cases "replication_handler s")
  case None
  then show ?thesis by (simp add: shutdown_def seq_def)
next
  case (Some h)
  obtain r x where hx: "Handler_shutdown E h (ext s) = (r, x)" by (cases "Handler_shutdown E h (ext s)")
  show ?thesis
  proof (cases r)
    case None
    with idem hx have "Handler_shutdown E h x = (None, x)" by blast
    with Some hx None show ?thesis by (simp add: shutdown_def seq_def call_ext_def)
  next
    case (Some e)
    with \<open>replication_handler s = Some h\<close> hx show ?thesis
      by (simp add: shutdown_def seq_def call_ext_def)
  qed
qed

theorem shutdown_idempotent_witness:
  "Handler_shutdown example_env 0 (snd (Handler_shutdown example_env 0 example_ext0)) =
     Handler_shutdown example_env 0 example_ext0 \<and>
   fst (seq (shutdown example_env example_running) (shutdown example_env)) = None \<and>
   ext (snd (seq (shutdown example_env example_running) (shutdown example_env))) =
     ext (snd (shutdown example_env example_running))"
proof -
  have 1: "\<forall>h x x'. Handler_shutdown example_env h x = (None, x') \<longrightarrow>
             Handler_shutdown example_env h x' = (None, x')"
    by (auto simp: example_env_def)
  have 2: "fst (shutdown example_env example_running) = None"
    by (simp add: shutdown_def example_running_def call_ext_def example_env_def)
  from shutdown_idempotent [OF 1, of example_running]
  have 3: "fst (seq (shutdown example_env example_running) (shutdown example_env)) =
          fst (shutdown example_env example_running)"
    and 4: "snd (seq (shutdown example_env example_running) (shutdown example_env)) =
           (snd (shutdown example_env example_running))
             \<lparr>trace := trace (snd (seq (shutdown example_env example_running) (shutdown example_env)))\<rparr>"
    by blast+
  from arg_cong [OF 4, of ext]
  have "ext (snd (seq (shutdown example_env example_running) (shutdown example_env))) =
          ext (snd (shutdown example_env example_running))"
    by simp
  moreover have "Handler_shutdown example_env 0 (snd (Handler_shutdown example_env 0 example_ext0)) =
      Handler_shutdown example_env 0 example_ext0"
    by (simp add: example_env_def)
  ultimately show ?thesis using 2 3 by simp
qed

lemma drop_database_no_handler:
  assumes "replication_handler s = None"
  shows "\<exists>new. trace (snd (drop_database E ctx s)) = trace s @ new \<and>
          (\<exists>m rest. new = (File_exists_call m, None) # rest \<and>
             m = Base_getMetadataPath E (ext s) @ METADATA_SUFFIX \<and>
             (\<forall>c r. (c, r) \<in> set rest \<longrightarrow>
                c \<noteq> Handler_shutdown_call \<and> c \<noteq> Handler_shutdownFinal_call) \<and>
             (\<forall>p b r. (File_remove_call p b, r) \<in> set rest \<longrightarrow>
                File_exists E m (ext s) \<and> (\<exists>rest'. rest = (File_remove_call m False, r) # rest')) \<and>
             (fst (drop_database E ctx s) = None \<longrightarrow>
                rest = (if File_exists E m (ext s) then [(File_remove_call m False, None)] else [])
                         @ [(Base_drop_call ctx, None)]))"
  using assms
  by (auto simp: drop_database_def seq_def call_ext_def observe_def Let_def
           split: prod.splits option.splits)

lemma drop_database_with_handler:
  assumes "replication_handler s = Some h"
  shows "\<exists>new. trace (snd (drop_database E ctx s)) = trace s @ new \<and>
          (\<exists>r rest. new = (Handler_shutdown_call, r) # rest) \<and>
          (\<forall>p b r. (File_remove_call p b, r) \<in> set new \<longrightarrow>
             (\<exists>rest. new = (Handler_shutdown_call, None) # (Handler_shutdownFinal_call, None) #
                           (File_exists_call p, None) # (File_remove_call p b, r) # rest)) \<and>
          (fst (drop_database E ctx s) = None \<longrightarrow>
             (\<exists>m mid. new = (Handler_shutdown_call, None) # (Handler_shutdownFinal_call, None) #
                             (File_exists_call m, None) # mid @ [(Base_drop_call ctx, None)] \<and>
                      (mid = [] \<or> mid = [(File_remove_call m False, None)])))"
  using assms
  by (auto simp: drop_database_def seq_def call_ext_def observe_def Let_def
           split: prod.splits option.splits)

lemma drop_database_trace_order:
  "\<exists>new. trace (snd (drop_database E ctx s)) = trace s @ new \<and>
     (case replication_handler s of
        Some h \<Rightarrow>
          (\<exists>r rest. new = (Handler_shutdown_call, r) # rest) \<and>
          (\<forall>p b r. (File_remove_call p b, r) \<in> set new \<longrightarrow>
             (\<exists>rest. new = (Handler_shutdown_call, None) # (Handler_shutdownFinal_call, None) #
                           (File_exists_call p, None) # (File_remove_call p b, r) # rest)) \<and>
          (fst (drop_database E ctx s) = None \<longrightarrow>
             (\<exists>m mid. new = (Handler_shutdown_call, None) # (Handler_shutdownFinal_call, None) #
                             (File_exists_call m, None) # mid @ [(Base_drop_call ctx, None)] \<and>
                      (mid = [] \<or> mid = [(File_remove_call m False, None)])))
      | None \<Rightarrow>
          (\<exists>m rest. new = (File_exists_call m, None) # rest \<and>
             m = Base_getMetadataPath E (ext s) @ METADATA_SUFFIX \<and>
             (\<forall>c r. (c, r) \<in> set rest \<longrightarrow>
                c \<noteq> Handler_shutdown_call \<and> c \<noteq> Handler_shutdownFinal_call) \<and>
             (\<forall>p b r. (File_remove_call p b, r) \<in> set rest \<longrightarrow>
                File_exists E m (ext s) \<and> (\<exists>rest'. rest = (File_remove_call m False, r) # rest')) \<and>
             (fst (drop_database E ctx s) = None \<longrightarrow>
                rest = (if File_exists E m (ext s) then [(File_remove_call m False, None)] else [])
                         @ [(Base_drop_call ctx, None)])))"
proof (cases "replication_handler s")
  case None
  from drop_database_no_handler [OF None, of E ctx] show ?thesis
    by (simp add: None)
next
  case (Some h)
  from drop_database_with_handler [OF Some, of E ctx] show ?thesis
    by (simp add: Some)
qed



lemma drop_database_shutdown_fault:
  "(\<forall>h e x1. replication_handler s = Some h \<and> Handler_shutdown E h (ext s) = (Some e, x1) \<longrightarrow>
      drop_database E ctx s =
        (Some e, s\<lparr>ext := x1, trace := trace s @ [(Handler_shutdown_call, Some e)]\<rparr>))"
  by (simp add: drop_database_def seq_def call_ext_def)

lemma drop_database_shutdownFinal_fault:
  "(\<forall>h x1 e x2. replication_handler s = Some h \<and> Handler_shutdown E h (ext s) = (None, x1) \<and>
      Handler_shutdownFinal E h x1 = (Some e, x2) \<longrightarrow>
      drop_database E ctx s =
        (Some e, s\<lparr>ext := x2,
                    trace := trace s @ [(Handler_shutdown_call, None),
                                        (Handler_shutdownFinal_call, Some e)]\<rparr>))"
  by (simp add: drop_database_def seq_def call_ext_def)

lemma drop_database_quiesced:
  "(\<forall>pre xq.
      (replication_handler s = None \<and> pre = [] \<and> xq = ext s) \<or>
      (\<exists>h x1. replication_handler s = Some h \<and> Handler_shutdown E h (ext s) = (None, x1) \<and>
          Handler_shutdownFinal E h x1 = (None, xq) \<and>
          pre = [(Handler_shutdown_call, None), (Handler_shutdownFinal_call, None)]) \<longrightarrow>
      (let m = Base_getMetadataPath E xq @ METADATA_SUFFIX in
       if File_exists E m xq
       then (case File_remove E m False xq of
               (Some e, x3) \<Rightarrow>
                 drop_database E ctx s =
                   (Some e, s\<lparr>ext := x3,
                               trace := trace s @ pre @
                                 [(File_exists_call m, None), (File_remove_call m False, Some e)]\<rparr>)
             | (None, x3) \<Rightarrow>
                 drop_database E ctx s =
                   (fst (Base_drop E ctx x3),
                    s\<lparr>ext := snd (Base_drop E ctx x3),
                      trace := trace s @ pre @
                        [(File_exists_call m, None), (File_remove_call m False, None),
                         (Base_drop_call ctx, fst (Base_drop E ctx x3))]\<rparr>))
       else drop_database E ctx s =
              (fst (Base_drop E ctx xq),
               s\<lparr>ext := snd (Base_drop E ctx xq),
                 trace := trace s @ pre @
                   [(File_exists_call m, None),
                    (Base_drop_call ctx, fst (Base_drop E ctx xq))]\<rparr>)))"
proof (intro allI impI)
  fix pre :: "(call \<times> fault option) list" and xq
  assume "(replication_handler s = None \<and> pre = [] \<and> xq = ext s) \<or>
      (\<exists>h x1. replication_handler s = Some h \<and> Handler_shutdown E h (ext s) = (None, x1) \<and>
          Handler_shutdownFinal E h x1 = (None, xq) \<and>
          pre = [(Handler_shutdown_call, None), (Handler_shutdownFinal_call, None)])"
  then have q: "(case replication_handler s of
            Some h \<Rightarrow>
              seq (call_ext Handler_shutdown_call (Handler_shutdown E h) s)
                  (call_ext Handler_shutdownFinal_call (Handler_shutdownFinal E h))
          | None \<Rightarrow> (None, s)) = (None, s\<lparr>ext := xq, trace := trace s @ pre\<rparr>)"
    by (elim disjE exE conjE) (simp_all add: seq_def call_ext_def)
  obtain r3 x3 where rm: "File_remove E (Base_getMetadataPath E xq @ METADATA_SUFFIX) False xq = (r3, x3)"
    by (cases "File_remove E (Base_getMetadataPath E xq @ METADATA_SUFFIX) False xq")
  obtain r4 x4 where d3: "Base_drop E ctx x3 = (r4, x4)" by (cases "Base_drop E ctx x3")
  obtain r5 x5 where dq: "Base_drop E ctx xq = (r5, x5)" by (cases "Base_drop E ctx xq")
  show "(let m = Base_getMetadataPath E xq @ METADATA_SUFFIX in
       if File_exists E m xq
       then (case File_remove E m False xq of
               (Some e, x3) \<Rightarrow>
                 drop_database E ctx s =
                   (Some e, s\<lparr>ext := x3,
                               trace := trace s @ pre @
                                 [(File_exists_call m, None), (File_remove_call m False, Some e)]\<rparr>)
             | (None, x3) \<Rightarrow>
                 drop_database E ctx s =
                   (fst (Base_drop E ctx x3),
                    s\<lparr>ext := snd (Base_drop E ctx x3),
                      trace := trace s @ pre @
                        [(File_exists_call m, None), (File_remove_call m False, None),
                         (Base_drop_call ctx, fst (Base_drop E ctx x3))]\<rparr>))
       else drop_database E ctx s =
              (fst (Base_drop E ctx xq),
               s\<lparr>ext := snd (Base_drop E ctx xq),
                 trace := trace s @ pre @
                   [(File_exists_call m, None),
                    (Base_drop_call ctx, fst (Base_drop E ctx xq))]\<rparr>))"
    unfolding drop_database_def q
    by (cases r3) (simp_all add: seq_def call_ext_def observe_def Let_def rm d3 dq)
qed

text \<open>
  C1. What \<^verbatim>\<open>drop\<close> does, for every prior state and whatever the collaborators do. With a
  replication handler it applies the handler's \<^verbatim>\<open>shutdown\<close> to the external state and, if
  that returned, \<^verbatim>\<open>shutdownFinal\<close> to the state \<^verbatim>\<open>shutdown\<close> left; a fault of either ends
  \<^verbatim>\<open>drop\<close> with that fault and nothing else is called. Only on the state \<open>xq\<close> that
  \<^verbatim>\<open>shutdownFinal\<close> returned (the prior external state when there is no handler, in which
  case neither is called) does it look at the metadata file: the path is the underlying
  catalog's metadata path followed by the suffix; if the file exists there it is removed,
  a fault of the removal ending \<^verbatim>\<open>drop\<close>; and then the underlying catalog's \<^verbatim>\<open>drop\<close> is
  applied to the state so reached, its result being the result of \<^verbatim>\<open>drop\<close>. No member of
  the database changes. In terms of the calls made: with a handler the first call is
  \<^verbatim>\<open>shutdown\<close>, and a deletion is attempted only after \<^verbatim>\<open>shutdown\<close> and then
  \<^verbatim>\<open>shutdownFinal\<close> have both returned; without one the first call is the existence check.
\<close>

theorem drop_database_order:
  "(\<forall>h e x1. replication_handler s = Some h \<and> Handler_shutdown E h (ext s) = (Some e, x1) \<longrightarrow>
      drop_database E ctx s =
        (Some e, s\<lparr>ext := x1, trace := trace s @ [(Handler_shutdown_call, Some e)]\<rparr>)) \<and>
   (\<forall>h x1 e x2. replication_handler s = Some h \<and> Handler_shutdown E h (ext s) = (None, x1) \<and>
      Handler_shutdownFinal E h x1 = (Some e, x2) \<longrightarrow>
      drop_database E ctx s =
        (Some e, s\<lparr>ext := x2,
                    trace := trace s @ [(Handler_shutdown_call, None),
                                        (Handler_shutdownFinal_call, Some e)]\<rparr>)) \<and>
   (\<forall>pre xq.
      (replication_handler s = None \<and> pre = [] \<and> xq = ext s) \<or>
      (\<exists>h x1. replication_handler s = Some h \<and> Handler_shutdown E h (ext s) = (None, x1) \<and>
          Handler_shutdownFinal E h x1 = (None, xq) \<and>
          pre = [(Handler_shutdown_call, None), (Handler_shutdownFinal_call, None)]) \<longrightarrow>
      (let m = Base_getMetadataPath E xq @ METADATA_SUFFIX in
       if File_exists E m xq
       then (case File_remove E m False xq of
               (Some e, x3) \<Rightarrow>
                 drop_database E ctx s =
                   (Some e, s\<lparr>ext := x3,
                               trace := trace s @ pre @
                                 [(File_exists_call m, None), (File_remove_call m False, Some e)]\<rparr>)
             | (None, x3) \<Rightarrow>
                 drop_database E ctx s =
                   (fst (Base_drop E ctx x3),
                    s\<lparr>ext := snd (Base_drop E ctx x3),
                      trace := trace s @ pre @
                        [(File_exists_call m, None), (File_remove_call m False, None),
                         (Base_drop_call ctx, fst (Base_drop E ctx x3))]\<rparr>))
       else drop_database E ctx s =
              (fst (Base_drop E ctx xq),
               s\<lparr>ext := snd (Base_drop E ctx xq),
                 trace := trace s @ pre @
                   [(File_exists_call m, None),
                    (Base_drop_call ctx, fst (Base_drop E ctx xq))]\<rparr>))) \<and>
   (\<exists>new. trace (snd (drop_database E ctx s)) = trace s @ new \<and>
     (case replication_handler s of
        Some h \<Rightarrow>
          (\<exists>r rest. new = (Handler_shutdown_call, r) # rest) \<and>
          (\<forall>p b r. (File_remove_call p b, r) \<in> set new \<longrightarrow>
             (\<exists>rest. new = (Handler_shutdown_call, None) # (Handler_shutdownFinal_call, None) #
                           (File_exists_call p, None) # (File_remove_call p b, r) # rest)) \<and>
          (fst (drop_database E ctx s) = None \<longrightarrow>
             (\<exists>m mid. new = (Handler_shutdown_call, None) # (Handler_shutdownFinal_call, None) #
                             (File_exists_call m, None) # mid @ [(Base_drop_call ctx, None)] \<and>
                      (mid = [] \<or> mid = [(File_remove_call m False, None)])))
      | None \<Rightarrow>
          (\<exists>m rest. new = (File_exists_call m, None) # rest \<and>
             m = Base_getMetadataPath E (ext s) @ METADATA_SUFFIX \<and>
             (\<forall>c r. (c, r) \<in> set rest \<longrightarrow>
                c \<noteq> Handler_shutdown_call \<and> c \<noteq> Handler_shutdownFinal_call) \<and>
             (\<forall>p b r. (File_remove_call p b, r) \<in> set rest \<longrightarrow>
                File_exists E m (ext s) \<and> (\<exists>rest'. rest = (File_remove_call m False, r) # rest')) \<and>
             (fst (drop_database E ctx s) = None \<longrightarrow>
                rest = (if File_exists E m (ext s) then [(File_remove_call m False, None)] else [])
                         @ [(Base_drop_call ctx, None)]))))"
  using drop_database_shutdown_fault [of s E ctx] drop_database_shutdownFinal_fault [of s E ctx]
    drop_database_quiesced [of s E ctx] drop_database_trace_order [of E ctx s]
  by (intro conjI)

theorem drop_database_order_witness:
  "drop_database example_env example_user_context example_running =
     (None,
      example_running
        \<lparr>ext := example_ext0\<lparr>ex_catalog := [], ex_files := [], ex_stop_requested := True,
                                ex_joined := True\<rparr>,
          trace := [(Handler_shutdown_call, None), (Handler_shutdownFinal_call, None),
                    (File_exists_call ''/metadata/pg.postgresql_replica_metadata'', None),
                    (File_remove_call ''/metadata/pg.postgresql_replica_metadata'' False, None),
                    (Base_drop_call example_user_context, None)]\<rparr>)"
proof -
  have h: "replication_handler example_running = Some 0" and t: "trace example_running = []"
    and x: "ext example_running = example_ext0"
    by (simp_all add: example_running_def example_database_def DatabasePostgreSQLReplica_Ordinary_def)
  let ?xq = "example_ext0\<lparr>ex_stop_requested := True, ex_joined := True\<rparr>"
  let ?pre = "[(Handler_shutdown_call, None), (Handler_shutdownFinal_call, None)] ::
                (call \<times> fault option) list"
  have q: "(replication_handler example_running = None \<and> ?pre = [] \<and> ?xq = ext example_running) \<or>
           (\<exists>h x1. replication_handler example_running = Some h \<and>
             Handler_shutdown example_env h (ext example_running) = (None, x1) \<and>
             Handler_shutdownFinal example_env h x1 = (None, ?xq) \<and>
             ?pre = [(Handler_shutdown_call, None), (Handler_shutdownFinal_call, None)])"
    by (simp add: h x example_env_def)
  note quiesced = drop_database_order [of example_running example_env example_user_context,
      THEN conjunct2, THEN conjunct2, THEN conjunct1, rule_format, of ?pre ?xq, OF q]
  have m: "Base_getMetadataPath example_env ?xq @ METADATA_SUFFIX =
             ''/metadata/pg.postgresql_replica_metadata''"
    by (simp add: example_env_def METADATA_SUFFIX_def)
  have ex: "File_exists example_env ''/metadata/pg.postgresql_replica_metadata'' ?xq"
    by (simp add: example_env_def example_ext0_def)
  have rm: "File_remove example_env ''/metadata/pg.postgresql_replica_metadata'' False ?xq =
              (None, ?xq\<lparr>ex_files := []\<rparr>)"
    by (simp add: example_env_def example_ext0_def)
  have bd: "Base_drop example_env example_user_context (?xq\<lparr>ex_files := []\<rparr>) =
              (None, ?xq\<lparr>ex_files := [], ex_catalog := []\<rparr>)"
    by (simp add: example_env_def)
  from quiesced show ?thesis
    by (simp add: m ex rm bd t Let_def)
qed

section \<open>Properties of startSynchronization and loadStoredObjects\<close>

lemma getStorage_cases:
  assumes "getStorage E nm s = Inr r"
  shows "\<exists>t. r = Some t \<and>
           ((carries_privileged_marker (global_context s) \<and>
               Base_tryGetTable E nm (global_context s) (ext s) = Some t) \<or>
            (\<not> carries_privileged_marker (global_context s) \<and>
               RBT.lookup (tables s) nm = Some t \<and>
               (\<exists>h. as_StoragePostgreSQLReplica t = Some h \<and> isNestedLoaded h)) \<or>
            t = StoragePostgreSQLReplica (database_name s, nm) None)"
  using assms
  by (auto simp: getStorage_def tryGetTable_def marker_iff StoragePostgreSQLReplica_create_def
           split: sum.splits option.splits if_splits)

lemma startSynchronization_loop_step:
  assumes "startSynchronization_loop E h (nm # rest) s = (None, s')"
  shows "\<exists>t x. getStorage E nm s = Inr (Some t) \<and>
           Handler_addStorage E h nm (as_StoragePostgreSQLReplica t) (ext s) = (None, x) \<and>
           startSynchronization_loop E h rest
             (s\<lparr>ext := x,
                trace := trace s @ [(Handler_addStorage_call nm (as_StoragePostgreSQLReplica t), None)],
                tables := RBT.insert nm t (tables s)\<rparr>) = (None, s')"
proof (cases "getStorage E nm s")
  case (Inl e)
  with assms show ?thesis by simp
next
  case (Inr r)
  from getStorage_cases[OF Inr] obtain t where t: "r = Some t" by blast
  obtain q x where qx: "Handler_addStorage E h nm (as_StoragePostgreSQLReplica t) (ext s) = (q, x)"
    by (cases "Handler_addStorage E h nm (as_StoragePostgreSQLReplica t) (ext s)")
  show ?thesis using assms Inr t qx
    by (cases q) (simp_all add: seq_def call_ext_def)
qed


lemma startSynchronization_loop_normal:
  assumes "startSynchronization_loop E h ns s = (None, s')"
  shows "(\<forall>nm. nm \<notin> set ns \<longrightarrow> RBT.lookup (tables s') nm = RBT.lookup (tables s) nm) \<and>
         (\<exists>adds. trace s' = trace s @ adds \<and>
            list_all2 (\<lambda>nm ev. \<exists>t. ev = (Handler_addStorage_call nm (as_StoragePostgreSQLReplica t), None))
              ns adds \<and>
            (\<forall>nm\<in>set ns. \<exists>t. RBT.lookup (tables s') nm = Some t \<and>
                 (Handler_addStorage_call nm (as_StoragePostgreSQLReplica t), None) \<in> set adds)) \<and>
         s' = s\<lparr>ext := ext s', trace := trace s', tables := tables s'\<rparr>"
  using assms
proof (induction ns arbitrary: s)
  case Nil
  then show ?case by simp
next
  case (Cons nm rest)
  from startSynchronization_loop_step[OF Cons.prems] obtain t x where
    g: "getStorage E nm s = Inr (Some t)" and
    a: "Handler_addStorage E h nm (as_StoragePostgreSQLReplica t) (ext s) = (None, x)" and
    l: "startSynchronization_loop E h rest
             (s\<lparr>ext := x,
                trace := trace s @ [(Handler_addStorage_call nm (as_StoragePostgreSQLReplica t), None)],
                tables := RBT.insert nm t (tables s)\<rparr>) = (None, s')" by blast
  let ?s1 = "s\<lparr>ext := x,
                trace := trace s @ [(Handler_addStorage_call nm (as_StoragePostgreSQLReplica t), None)],
                tables := RBT.insert nm t (tables s)\<rparr>"
  from Cons.IH[OF l] obtain adds where
    f: "\<forall>k. k \<notin> set rest \<longrightarrow> RBT.lookup (tables s') k = RBT.lookup (tables ?s1) k" and
    tr: "trace s' = trace ?s1 @ adds" and
    la: "list_all2 (\<lambda>nm ev. \<exists>t. ev = (Handler_addStorage_call nm (as_StoragePostgreSQLReplica t), None))
              rest adds" and
    reg: "\<forall>k\<in>set rest. \<exists>t. RBT.lookup (tables s') k = Some t \<and>
                 (Handler_addStorage_call k (as_StoragePostgreSQLReplica t), None) \<in> set adds" and
    fr: "s' = ?s1\<lparr>ext := ext s', trace := trace s', tables := tables s'\<rparr>"
    by blast
  let ?adds = "(Handler_addStorage_call nm (as_StoragePostgreSQLReplica t), None) # adds"
  have 1: "\<forall>k. k \<notin> set (nm # rest) \<longrightarrow> RBT.lookup (tables s') k = RBT.lookup (tables s) k"
    using f by simp
  have 2: "trace s' = trace s @ ?adds" using tr by simp
  have 3: "list_all2 (\<lambda>nm ev. \<exists>t. ev = (Handler_addStorage_call nm (as_StoragePostgreSQLReplica t), None))
              (nm # rest) ?adds" using la by auto
  have 4: "\<forall>k\<in>set (nm # rest). \<exists>t. RBT.lookup (tables s') k = Some t \<and>
                 (Handler_addStorage_call k (as_StoragePostgreSQLReplica t), None) \<in> set ?adds"
  proof
    fix k assume k: "k \<in> set (nm # rest)"
    show "\<exists>t. RBT.lookup (tables s') k = Some t \<and>
                 (Handler_addStorage_call k (as_StoragePostgreSQLReplica t), None) \<in> set ?adds"
    proof (cases "k \<in> set rest")
      case True
      with reg show ?thesis by auto
    next
      case False
      with k have "k = nm" by simp
      with False f have "RBT.lookup (tables s') k = Some t" by simp
      with \<open>k = nm\<close> show ?thesis by auto
    qed
  qed
  have 5: "s' = s\<lparr>ext := ext s', trace := trace s', tables := tables s'\<rparr>"
  proof -
    have e: "?s1\<lparr>ext := ext s', trace := trace s', tables := tables s'\<rparr> =
             s\<lparr>ext := ext s', trace := trace s', tables := tables s'\<rparr>" by simp
    show ?thesis by (rule trans [OF fr e])
  qed
  show ?case using 1 2 3 4 5 by blast
qed

lemma startSynchronization_loop_obtained:
  assumes "startSynchronization_loop E h ns s = (None, s')"
      and "database_name s = db" and "global_context s = gctx"
      and "\<forall>nm t. RBT.lookup (tables s) nm = Some t \<longrightarrow>
             t = StoragePostgreSQLReplica (db, nm) None \<or>
             (carries_privileged_marker gctx \<and> (\<exists>x. Base_tryGetTable E nm gctx x = Some t))"
  shows "\<forall>nm t. RBT.lookup (tables s') nm = Some t \<longrightarrow>
             t = StoragePostgreSQLReplica (db, nm) None \<or>
             (carries_privileged_marker gctx \<and> (\<exists>x. Base_tryGetTable E nm gctx x = Some t))"
  using assms
proof (induction ns arbitrary: s)
  case Nil
  then show ?case by simp
next
  case (Cons nm rest)
  from startSynchronization_loop_step[OF Cons.prems(1)] obtain t x where
    g: "getStorage E nm s = Inr (Some t)" and
    l: "startSynchronization_loop E h rest
             (s\<lparr>ext := x,
                trace := trace s @ [(Handler_addStorage_call nm (as_StoragePostgreSQLReplica t), None)],
                tables := RBT.insert nm t (tables s)\<rparr>) = (None, s')" by blast
  have t: "t = StoragePostgreSQLReplica (db, nm) None \<or>
             (carries_privileged_marker gctx \<and> (\<exists>x. Base_tryGetTable E nm gctx x = Some t))"
    using getStorage_cases[OF g] Cons.prems(2,3,4) by auto
  show ?case
  proof (rule Cons.IH[OF l])
    show "\<forall>k u. RBT.lookup (tables (s\<lparr>ext := x,
                trace := trace s @ [(Handler_addStorage_call nm (as_StoragePostgreSQLReplica t), None)],
                tables := RBT.insert nm t (tables s)\<rparr>)) k = Some u \<longrightarrow>
             u = StoragePostgreSQLReplica (db, k) None \<or>
             (carries_privileged_marker gctx \<and> (\<exists>x. Base_tryGetTable E k gctx x = Some u))"
      using t Cons.prems(4) by auto
  qed (simp_all add: Cons.prems)
qed

lemma handler_arguments_observe [simp]:
  "handler_arguments (observe c s) tlist = handler_arguments s tlist"
  by (simp add: handler_arguments_def observe_def)

lemma startSynchronization_normal:
  assumes "startSynchronization E s = (None, s')"
  shows "\<exists>tlist h x1 names x2 s2 x3.
           Macros_expand E (postgresql_tables_list (settings s)) (ext s) = Inr tlist \<and>
           Handler_construct E (handler_arguments s tlist) (ext s) = (Inr h, x1) \<and>
           Handler_fetchRequiredTables E h (connection s) x1 = (Inr names, x2) \<and>
           startSynchronization_loop E h names
             (s\<lparr>replication_handler := Some h, ext := x2,
                trace := trace s @
                  [(Macros_expand_call (postgresql_tables_list (settings s)), None),
                   (Handler_construct_call (handler_arguments s tlist), None),
                   (Handler_fetchRequiredTables_call, None)]\<rparr>) = (None, s2) \<and>
           Handler_startup E h (ext s2) = (None, x3) \<and>
           s' = s2\<lparr>ext := x3,
                   trace := trace s2 @
                     [(Log_call Trace ''Loaded {} tables. Starting synchronization''
                         [length (RBT.keys (tables s2))], None),
                      (Handler_startup_call, None)]\<rparr>"
  using assms
  apply (simp add: startSynchronization_def Let_def split: sum.splits prod.splits)
  apply (auto simp: seq_def LOG_def observe_def call_ext_def split: prod.splits option.splits)
  done

lemma getStorage_spec:
  assumes "getStorage E nm s = Inr r"
  shows "r = Some (spec_handle_for E (global_context s) (database_name s) nm (ext s) (tables s))"
  using assms
  by (auto simp: getStorage_def tryGetTable_def marker_iff StoragePostgreSQLReplica_create_def
           spec_handle_for_def spec_lookup_path_def isNestedLoaded_def handle_state_of_def
           split: sum.splits option.splits if_splits)

lemma startSynchronization_loop_refines:
  assumes "startSynchronization_loop E h ns s = (None, s')"
  shows "\<exists>adds. trace s' = trace s @ adds \<and>
           spec_register_required E h (global_context s) (database_name s) ns (ext s) (tables s) =
             (adds, ext s', tables s')"
  using assms
proof (induction ns arbitrary: s)
  case Nil
  then show ?case by simp
next
  case (Cons nm rest)
  from startSynchronization_loop_step [OF Cons.prems] obtain t x where
    g: "getStorage E nm s = Inr (Some t)" and
    a: "Handler_addStorage E h nm (as_StoragePostgreSQLReplica t) (ext s) = (None, x)" and
    l: "startSynchronization_loop E h rest
             (s\<lparr>ext := x,
                trace := trace s @ [(Handler_addStorage_call nm (as_StoragePostgreSQLReplica t), None)],
                tables := RBT.insert nm t (tables s)\<rparr>) = (None, s')" by blast
  have t: "t = spec_handle_for E (global_context s) (database_name s) nm (ext s) (tables s)"
    using getStorage_spec [OF g] by simp
  from Cons.IH [OF l] obtain adds where
    tr: "trace s' = (trace s @ [(Handler_addStorage_call nm (as_StoragePostgreSQLReplica t), None)]) @ adds"
    and sp: "spec_register_required E h (global_context s) (database_name s) rest x
               (RBT.insert nm t (tables s)) = (adds, ext s', tables s')"
    by auto
  show ?case
    apply (rule exI [of _ "(Handler_addStorage_call nm (as_StoragePostgreSQLReplica t), None) # adds"])
    using tr sp a t by (simp add: Let_def)
qed

lemma spec_handle_for_unmarked:
  "\<not> carries_privileged_marker gctx \<Longrightarrow>
   spec_handle_for E gctx db nm x registry = spec_handle_for E gctx db nm x' registry"
  by (simp add: spec_handle_for_def spec_lookup_path_def)

lemma spec_handle_for_insert_other:
  "\<not> carries_privileged_marker gctx \<Longrightarrow> k \<noteq> nm \<Longrightarrow>
   spec_handle_for E gctx db k x (RBT.insert nm t registry) = spec_handle_for E gctx db k x registry"
  by (simp add: spec_handle_for_def spec_lookup_path_def)

lemma spec_handle_for_insert_same:
  "\<not> carries_privileged_marker gctx \<Longrightarrow>
   spec_handle_for E gctx db nm x (RBT.insert nm (spec_handle_for E gctx db nm x' registry) registry') =
     spec_handle_for E gctx db nm x' registry"
  by (auto simp: spec_handle_for_def spec_lookup_path_def handle_state_of_def
           split: option.splits if_splits)

lemma startSynchronization_loop_unmarked:
  assumes "startSynchronization_loop E h ns s = (None, s')"
      and "\<not> carries_privileged_marker (global_context s)"
  shows "\<forall>nm\<in>set ns. RBT.lookup (tables s') nm =
           Some (spec_handle_for E (global_context s) (database_name s) nm (ext s) (tables s))"
  using assms
proof (induction ns arbitrary: s)
  case Nil
  then show ?case by simp
next
  case (Cons nm rest)
  from startSynchronization_loop_step [OF Cons.prems(1)] obtain t x where
    g: "getStorage E nm s = Inr (Some t)" and
    l: "startSynchronization_loop E h rest
             (s\<lparr>ext := x,
                trace := trace s @ [(Handler_addStorage_call nm (as_StoragePostgreSQLReplica t), None)],
                tables := RBT.insert nm t (tables s)\<rparr>) = (None, s')" by blast
  let ?s1 = "s\<lparr>ext := x,
                trace := trace s @ [(Handler_addStorage_call nm (as_StoragePostgreSQLReplica t), None)],
                tables := RBT.insert nm t (tables s)\<rparr>"
  let ?H = "\<lambda>k y registry. spec_handle_for E (global_context s) (database_name s) k y registry"
  have t: "t = ?H nm (ext s) (tables s)"
    using getStorage_spec [OF g] by simp
  have u: "\<not> carries_privileged_marker (global_context s)" by (rule Cons.prems(2))
  from Cons.IH [OF l] u have
    ih: "\<forall>k\<in>set rest. RBT.lookup (tables s') k = Some (?H k x (RBT.insert nm t (tables s)))"
    by simp
  from startSynchronization_loop_normal [OF l] have
    out: "\<forall>k. k \<notin> set rest \<longrightarrow> RBT.lookup (tables s') k = RBT.lookup (tables ?s1) k"
    by blast
  show ?case
  proof
    fix k assume k: "k \<in> set (nm # rest)"
    show "RBT.lookup (tables s') k = Some (?H k (ext s) (tables s))"
    proof (cases "k \<in> set rest")
      case True
      with ih have 1: "RBT.lookup (tables s') k = Some (?H k x (RBT.insert nm t (tables s)))" by simp
      show ?thesis
      proof (cases "k = nm")
        case True
        have "?H nm x (RBT.insert nm t (tables s)) = ?H nm (ext s) (tables s)"
          unfolding t by (rule spec_handle_for_insert_same [OF u])
        with 1 True show ?thesis by simp
      next
        case False
        have "?H k x (RBT.insert nm t (tables s)) = ?H k x (tables s)"
          by (rule spec_handle_for_insert_other [OF u False])
        also have "\<dots> = ?H k (ext s) (tables s)" by (rule spec_handle_for_unmarked [OF u])
        finally show ?thesis using 1 by simp
      qed
    next
      case False
      with k have kn: "k = nm" by simp
      from out False have "RBT.lookup (tables s') k = RBT.lookup (tables ?s1) k" by simp
      with kn t show ?thesis by simp
    qed
  qed
qed

lemma startSynchronization_normal_facts:
  assumes "startSynchronization E s = (None, s')"
  shows "\<exists>tables_list h x1 names x2 adds.
      Macros_expand E (postgresql_tables_list (settings s)) (ext s) = Inr tables_list \<and>
      Handler_construct E (handler_arguments s tables_list) (ext s) = (Inr h, x1) \<and>
      Handler_fetchRequiredTables E h (connection s) x1 = (Inr names, x2) \<and>
      replication_handler s' = Some h \<and>
      set (RBT.keys (tables s')) = set (RBT.keys (tables s)) \<union> set names \<and>
      (\<forall>nm. nm \<notin> set names \<longrightarrow> RBT.lookup (tables s') nm = RBT.lookup (tables s) nm) \<and>
      trace s' = trace s @
        [(Macros_expand_call (postgresql_tables_list (settings s)), None),
         (Handler_construct_call (handler_arguments s tables_list), None),
         (Handler_fetchRequiredTables_call, None)] @ adds @
        [(Log_call Trace ''Loaded {} tables. Starting synchronization''
            [length (RBT.keys (tables s'))], None),
         (Handler_startup_call, None)] \<and>
      list_all2 (\<lambda>nm ev. \<exists>t. ev = (Handler_addStorage_call nm (as_StoragePostgreSQLReplica t), None))
        names adds \<and>
      (\<forall>nm\<in>set names. \<exists>t. RBT.lookup (tables s') nm = Some t \<and>
          (Handler_addStorage_call nm (as_StoragePostgreSQLReplica t), None) \<in> set adds) \<and>
      (tables s = RBT.empty \<longrightarrow>
         set (RBT.keys (tables s')) = set names \<and>
         (\<forall>nm t. RBT.lookup (tables s') nm = Some t \<longrightarrow>
            t = StoragePostgreSQLReplica (database_name s, nm) None \<or>
            (carries_privileged_marker (global_context s) \<and>
             (\<exists>x. Base_tryGetTable E nm (global_context s) x = Some t)))) \<and>
      (\<exists>xl. spec_register_required E h (global_context s) (database_name s) names x2 (tables s) =
               (adds, xl, tables s') \<and>
            Handler_startup E h xl = (None, ext s')) \<and>
      (\<not> carries_privileged_marker (global_context s) \<longrightarrow>
         (\<forall>nm\<in>set names. \<forall>t hd.
            RBT.lookup (tables s) nm = Some t \<and> as_StoragePostgreSQLReplica t = Some hd \<and>
            handle_state_of hd = Loaded \<longrightarrow>
            RBT.lookup (tables s') nm = Some t \<and>
            (Handler_addStorage_call nm (Some hd), None) \<in> set adds) \<and>
         (\<forall>nm\<in>set names.
            RBT.lookup (tables s) nm = None \<or>
            (\<exists>t hd. RBT.lookup (tables s) nm = Some t \<and> as_StoragePostgreSQLReplica t = Some hd \<and>
                handle_state_of hd = Pending) \<longrightarrow>
            RBT.lookup (tables s') nm = Some (StoragePostgreSQLReplica (database_name s, nm) None) \<and>
            (Handler_addStorage_call nm (Some ((database_name s, nm), None)), None) \<in> set adds))"
proof -
  from startSynchronization_normal[OF assms] obtain tlist h x1 names x2 s2 x3 where
    m: "Macros_expand E (postgresql_tables_list (settings s)) (ext s) = Inr tlist" and
    c: "Handler_construct E (handler_arguments s tlist) (ext s) = (Inr h, x1)" and
    f: "Handler_fetchRequiredTables E h (connection s) x1 = (Inr names, x2)" and
    l: "startSynchronization_loop E h names
             (s\<lparr>replication_handler := Some h, ext := x2,
                trace := trace s @
                  [(Macros_expand_call (postgresql_tables_list (settings s)), None),
                   (Handler_construct_call (handler_arguments s tlist), None),
                   (Handler_fetchRequiredTables_call, None)]\<rparr>) = (None, s2)" and
    st: "Handler_startup E h (ext s2) = (None, x3)" and
    s': "s' = s2\<lparr>ext := x3,
                   trace := trace s2 @
                     [(Log_call Trace ''Loaded {} tables. Starting synchronization''
                         [length (RBT.keys (tables s2))], None),
                      (Handler_startup_call, None)]\<rparr>"
    by blast
  let ?s1 = "s\<lparr>replication_handler := Some h, ext := x2,
                trace := trace s @
                  [(Macros_expand_call (postgresql_tables_list (settings s)), None),
                   (Handler_construct_call (handler_arguments s tlist), None),
                   (Handler_fetchRequiredTables_call, None)]\<rparr>"
  from startSynchronization_loop_normal[OF l] obtain adds where
    out: "\<forall>nm. nm \<notin> set names \<longrightarrow> RBT.lookup (tables s2) nm = RBT.lookup (tables ?s1) nm" and
    tr: "trace s2 = trace ?s1 @ adds" and
    la: "list_all2 (\<lambda>nm ev. \<exists>t. ev = (Handler_addStorage_call nm (as_StoragePostgreSQLReplica t), None))
           names adds" and
    reg: "\<forall>nm\<in>set names. \<exists>t. RBT.lookup (tables s2) nm = Some t \<and>
            (Handler_addStorage_call nm (as_StoragePostgreSQLReplica t), None) \<in> set adds" and
    fr: "s2 = ?s1\<lparr>ext := ext s2, trace := trace s2, tables := tables s2\<rparr>"
    by blast
  have tb: "tables s' = tables s2" using s' by simp
  have rh: "replication_handler s' = Some h"
  proof -
    have "replication_handler s2 = replication_handler (?s1\<lparr>ext := ext s2, trace := trace s2, tables := tables s2\<rparr>)"
      using fr by (rule arg_cong)
    then show ?thesis using s' by simp
  qed
  have out': "\<forall>nm. nm \<notin> set names \<longrightarrow> RBT.lookup (tables s') nm = RBT.lookup (tables s) nm"
    using out tb by simp
  have keys: "set (RBT.keys (tables s')) = set (RBT.keys (tables s)) \<union> set names"
  proof (rule set_eqI)
    fix k
    show "k \<in> set (RBT.keys (tables s')) \<longleftrightarrow> k \<in> set (RBT.keys (tables s)) \<union> set names"
    proof (cases "k \<in> set names")
      case True
      with reg tb show ?thesis by (auto simp: keys_lookup)
    next
      case False
      with out' show ?thesis by (simp add: keys_lookup)
    qed
  qed
  have tr': "trace s' = trace s @
        [(Macros_expand_call (postgresql_tables_list (settings s)), None),
         (Handler_construct_call (handler_arguments s tlist), None),
         (Handler_fetchRequiredTables_call, None)] @ adds @
        [(Log_call Trace ''Loaded {} tables. Starting synchronization''
            [length (RBT.keys (tables s'))], None),
         (Handler_startup_call, None)]"
    using s' tr by simp
  have reg': "\<forall>nm\<in>set names. \<exists>t. RBT.lookup (tables s') nm = Some t \<and>
          (Handler_addStorage_call nm (as_StoragePostgreSQLReplica t), None) \<in> set adds"
    using reg tb by simp
  have empty: "tables s = RBT.empty \<longrightarrow>
         set (RBT.keys (tables s')) = set names \<and>
         (\<forall>nm t. RBT.lookup (tables s') nm = Some t \<longrightarrow>
            t = StoragePostgreSQLReplica (database_name s, nm) None \<or>
            (carries_privileged_marker (global_context s) \<and>
             (\<exists>x. Base_tryGetTable E nm (global_context s) x = Some t)))"
  proof
    assume e: "tables s = RBT.empty"
    have k: "set (RBT.keys (tables s')) = set names" using keys e by simp
    have "\<forall>nm t. RBT.lookup (tables s2) nm = Some t \<longrightarrow>
            t = StoragePostgreSQLReplica (database_name s, nm) None \<or>
            (carries_privileged_marker (global_context s) \<and>
             (\<exists>x. Base_tryGetTable E nm (global_context s) x = Some t))"
      by (rule startSynchronization_loop_obtained[OF l]) (simp_all add: e)
    with k tb show "set (RBT.keys (tables s')) = set names \<and>
         (\<forall>nm t. RBT.lookup (tables s') nm = Some t \<longrightarrow>
            t = StoragePostgreSQLReplica (database_name s, nm) None \<or>
            (carries_privileged_marker (global_context s) \<and>
             (\<exists>x. Base_tryGetTable E nm (global_context s) x = Some t)))" by simp
  qed
  have refines: "\<exists>xl. spec_register_required E h (global_context s) (database_name s) names x2 (tables s) =
               (adds, xl, tables s') \<and>
            Handler_startup E h xl = (None, ext s')"
  proof -
    from startSynchronization_loop_refines [OF l] obtain adds2 where
      tr2: "trace s2 = trace ?s1 @ adds2" and
      sp: "spec_register_required E h (global_context ?s1) (database_name ?s1) names (ext ?s1)
             (tables ?s1) = (adds2, ext s2, tables s2)"
      by blast
    from tr tr2 have "adds2 = adds" by simp
    with sp tb have "spec_register_required E h (global_context s) (database_name s) names x2
                    (tables s) = (adds, ext s2, tables s')" by simp
    moreover have "Handler_startup E h (ext s2) = (None, ext s')" using st s' by simp
    ultimately show ?thesis by blast
  qed
  have unmarked: "\<not> carries_privileged_marker (global_context s) \<longrightarrow>
         (\<forall>nm\<in>set names. \<forall>t hd.
            RBT.lookup (tables s) nm = Some t \<and> as_StoragePostgreSQLReplica t = Some hd \<and>
            handle_state_of hd = Loaded \<longrightarrow>
            RBT.lookup (tables s') nm = Some t \<and>
            (Handler_addStorage_call nm (Some hd), None) \<in> set adds) \<and>
         (\<forall>nm\<in>set names.
            RBT.lookup (tables s) nm = None \<or>
            (\<exists>t hd. RBT.lookup (tables s) nm = Some t \<and> as_StoragePostgreSQLReplica t = Some hd \<and>
                handle_state_of hd = Pending) \<longrightarrow>
            RBT.lookup (tables s') nm = Some (StoragePostgreSQLReplica (database_name s, nm) None) \<and>
            (Handler_addStorage_call nm (Some ((database_name s, nm), None)), None) \<in> set adds)"
  proof
    assume u: "\<not> carries_privileged_marker (global_context s)"
    then have u1: "\<not> carries_privileged_marker (global_context ?s1)" by simp
    from startSynchronization_loop_unmarked [OF l u1] tb have
      lk: "\<forall>nm\<in>set names. RBT.lookup (tables s') nm =
             Some (spec_handle_for E (global_context s) (database_name s) nm x2 (tables s))"
      by simp
    have found: "\<forall>nm\<in>set names. \<forall>t hd.
            RBT.lookup (tables s) nm = Some t \<and> as_StoragePostgreSQLReplica t = Some hd \<and>
            handle_state_of hd = Loaded \<longrightarrow>
            RBT.lookup (tables s') nm = Some t \<and>
            (Handler_addStorage_call nm (Some hd), None) \<in> set adds"
    proof (intro ballI allI impI)
      fix nm t hd
      assume nm: "nm \<in> set names"
        and a: "RBT.lookup (tables s) nm = Some t \<and> as_StoragePostgreSQLReplica t = Some hd \<and>
                handle_state_of hd = Loaded"
      have "spec_handle_for E (global_context s) (database_name s) nm x2 (tables s) = t"
        using u a by (simp add: spec_handle_for_def spec_lookup_path_def)
      with lk nm have 1: "RBT.lookup (tables s') nm = Some t" by simp
      from reg' nm obtain t' where "RBT.lookup (tables s') nm = Some t'"
        and "(Handler_addStorage_call nm (as_StoragePostgreSQLReplica t'), None) \<in> set adds"
        by blast
      with 1 a show "RBT.lookup (tables s') nm = Some t \<and>
            (Handler_addStorage_call nm (Some hd), None) \<in> set adds" by simp
    qed
    have created: "\<forall>nm\<in>set names.
            RBT.lookup (tables s) nm = None \<or>
            (\<exists>t hd. RBT.lookup (tables s) nm = Some t \<and> as_StoragePostgreSQLReplica t = Some hd \<and>
                handle_state_of hd = Pending) \<longrightarrow>
            RBT.lookup (tables s') nm = Some (StoragePostgreSQLReplica (database_name s, nm) None) \<and>
            (Handler_addStorage_call nm (Some ((database_name s, nm), None)), None) \<in> set adds"
    proof (intro ballI impI)
      fix nm
      assume nm: "nm \<in> set names"
        and a: "RBT.lookup (tables s) nm = None \<or>
            (\<exists>t hd. RBT.lookup (tables s) nm = Some t \<and> as_StoragePostgreSQLReplica t = Some hd \<and>
                handle_state_of hd = Pending)"
      have "spec_handle_for E (global_context s) (database_name s) nm x2 (tables s) =
              StoragePostgreSQLReplica (database_name s, nm) None"
        using u a by (auto simp: spec_handle_for_def spec_lookup_path_def)
      with lk nm have 1: "RBT.lookup (tables s') nm =
                            Some (StoragePostgreSQLReplica (database_name s, nm) None)" by simp
      from reg' nm obtain t' where "RBT.lookup (tables s') nm = Some t'"
        and "(Handler_addStorage_call nm (as_StoragePostgreSQLReplica t'), None) \<in> set adds"
        by blast
      with 1 show "RBT.lookup (tables s') nm = Some (StoragePostgreSQLReplica (database_name s, nm) None) \<and>
            (Handler_addStorage_call nm (Some ((database_name s, nm), None)), None) \<in> set adds"
        by auto
    qed
    from found created show "(\<forall>nm\<in>set names. \<forall>t hd.
            RBT.lookup (tables s) nm = Some t \<and> as_StoragePostgreSQLReplica t = Some hd \<and>
            handle_state_of hd = Loaded \<longrightarrow>
            RBT.lookup (tables s') nm = Some t \<and>
            (Handler_addStorage_call nm (Some hd), None) \<in> set adds) \<and>
         (\<forall>nm\<in>set names.
            RBT.lookup (tables s) nm = None \<or>
            (\<exists>t hd. RBT.lookup (tables s) nm = Some t \<and> as_StoragePostgreSQLReplica t = Some hd \<and>
                handle_state_of hd = Pending) \<longrightarrow>
            RBT.lookup (tables s') nm = Some (StoragePostgreSQLReplica (database_name s, nm) None) \<and>
            (Handler_addStorage_call nm (Some ((database_name s, nm), None)), None) \<in> set adds)"
      by (rule conjI)
  qed
  show ?thesis
    apply (rule exI [of _ tlist], rule exI [of _ h], rule exI [of _ x1], rule exI [of _ names],
           rule exI [of _ x2], rule exI [of _ adds])
    using m c f rh keys out' tr' la reg' empty refines unmarked by (intro conjI)
qed

lemma handler_arguments_trace [simp]:
  "handler_arguments (s\<lparr>trace := tr\<rparr>) tlist = handler_arguments s tlist"
  by (simp add: handler_arguments_def)


lemma handler_arguments_ext [simp]:
  "handler_arguments (s\<lparr>ext := x\<rparr>) tlist = handler_arguments s tlist"
  by (simp add: handler_arguments_def)


lemma registry_handles_after_startSynchronization:
  assumes "startSynchronization E s = (None, s')"
      and "tables s = RBT.empty"
      and "\<not> carries_privileged_marker (global_context s)"
  shows "\<forall>nm t. RBT.lookup (tables s') nm = Some t \<longrightarrow> as_StoragePostgreSQLReplica t \<noteq> None"
proof (intro allI impI)
  fix nm t
  assume l: "RBT.lookup (tables s') nm = Some t"
  from startSynchronization_normal_facts [OF assms(1)] obtain names where
    "tables s = RBT.empty \<longrightarrow>
         set (RBT.keys (tables s')) = set names \<and>
         (\<forall>nm t. RBT.lookup (tables s') nm = Some t \<longrightarrow>
            t = StoragePostgreSQLReplica (database_name s, nm) None \<or>
            (carries_privileged_marker (global_context s) \<and>
             (\<exists>x. Base_tryGetTable E nm (global_context s) x = Some t)))"
    by (elim exE conjE) (rule that)
  with assms(2) have
    "\<forall>nm t. RBT.lookup (tables s') nm = Some t \<longrightarrow>
            t = StoragePostgreSQLReplica (database_name s, nm) None \<or>
            (carries_privileged_marker (global_context s) \<and>
             (\<exists>x. Base_tryGetTable E nm (global_context s) x = Some t))"
    by simp
  with l assms(3) have "t = StoragePostgreSQLReplica (database_name s, nm) None" by blast
  then show "as_StoragePostgreSQLReplica t \<noteq> None" by simp
qed





section \<open>Properties of the interpreter's constructor\<close>

lemma special_scalars_add:
  "special_scalars (addSpecialScalar nm b c) = (special_scalars c)(nm \<mapsto> b)"
  by (cases c) (simp add: addSpecialScalar_def)

text \<open>
  C9. Whichever of the two constructors builds it, the context of the interpreter holds,
  under the name \<^verbatim>\<open>_shard_num\<close>, a one-row constant \<^verbatim>\<open>UInt32\<close> column with the shard index of
  the options when they carry one, and what the given context held under that name when
  they do not; the same for \<^verbatim>\<open>_shard_count\<close> and the shard count; every other scalar is as
  in the given context. The constructor is what builds the interpreter, so this holds
  before anything is executed.
\<close>

theorem interpreter_shard_scalars:
  "\<forall>construct \<in> {IInterpreterUnionOrSelectQuery, IInterpreterUnionOrSelectQuery_copy}.
     special_scalars (interpreter_context (construct q c opts)) ''_shard_num'' =
       (case shard_num opts of
          Some n \<Rightarrow> Some [\<lparr> column = ColumnConst DataTypeUInt32 1 n, type = DataTypeUInt32,
                            name = ''_shard_num'' \<rparr>]
        | None \<Rightarrow> special_scalars c ''_shard_num'') \<and>
     special_scalars (interpreter_context (construct q c opts)) ''_shard_count'' =
       (case shard_count opts of
          Some n \<Rightarrow> Some [\<lparr> column = ColumnConst DataTypeUInt32 1 n, type = DataTypeUInt32,
                            name = ''_shard_count'' \<rparr>]
        | None \<Rightarrow> special_scalars c ''_shard_count'') \<and>
     (\<forall>nm. nm \<noteq> ''_shard_num'' \<and> nm \<noteq> ''_shard_count'' \<longrightarrow>
        special_scalars (interpreter_context (construct q c opts)) nm = special_scalars c nm)"
  by (simp add: IInterpreterUnionOrSelectQuery_copy_def createCopy_def
        IInterpreterUnionOrSelectQuery_def special_scalars_add Let_def split: option.splits)

theorem interpreter_shard_scalars_witness:
  "special_scalars (interpreter_context
      (IInterpreterUnionOrSelectQuery ''SELECT 1'' example_user_context example_options))
      ''_shard_num'' =
     Some [\<lparr> column = ColumnConst DataTypeUInt32 1 2, type = DataTypeUInt32, name = ''_shard_num'' \<rparr>] \<and>
   special_scalars (interpreter_context
      (IInterpreterUnionOrSelectQuery_copy ''SELECT 1'' example_user_context example_options))
      ''_shard_count'' = None \<and>
   special_scalars (interpreter_context
      (IInterpreterUnionOrSelectQuery ''SELECT 1'' example_user_context example_options))
      ''_other'' = None"
proof -
  have o: "shard_num example_options = Some 2" "shard_count example_options = None"
    by (simp_all add: example_options_def)
  have c: "special_scalars example_user_context = Map.empty"
    by (simp add: example_user_context_def)
  from interpreter_shard_scalars [of "''SELECT 1''" example_user_context example_options]
  show ?thesis by (simp add: o c)
qed

end
